theory Spec2Isabelle
  imports Complex_Main "HOL-Library.AList"
begin

section \<open>Strings and the validators of helpers.js\<close>

text \<open>
  JavaScript strings are modelled as \<open>string\<close> (lists of 8-bit characters, that is the
  Latin-1 range of the UTF-16 code units). \<open>String.prototype.trim\<close> removes white space
  and line terminators from both ends; in this range those are TAB, LF, VT, FF, CR, SPACE
  and NBSP.
\<close>

definition js_space :: "char \<Rightarrow> bool" where
  "js_space c = (of_char c \<in> {9, 10, 11, 12, 13, 32, 160 :: nat})"

definition trim :: "string \<Rightarrow> string" where
  "trim s = rev (dropWhile js_space (rev (dropWhile js_space s)))"

text \<open>
  A payload field of type string is \<open>Some s\<close>; a field that is missing, \<open>null\<close> or
  not a string is \<open>None\<close> (\<open>typeof value === "string"\<close> fails).
\<close>

definition isValidItemId :: "string \<Rightarrow> bool" where
  "isValidItemId v = (length (trim v) = 10)"

definition isValidOrderId :: "string \<Rightarrow> bool" where
  "isValidOrderId v = (length (trim v) = 20)"

definition isValidTokenId :: "string \<Rightarrow> bool" where
  "isValidTokenId v = (length (trim v) = 20)"

definition isValidPassword :: "string \<Rightarrow> bool" where
  "isValidPassword v = (6 \<le> length (trim v))"

definition is_alpha :: "char \<Rightarrow> bool" where
  "is_alpha c = (let n = (of_char c :: nat) in (65 \<le> n \<and> n \<le> 90) \<or> (97 \<le> n \<and> n \<le> 122))"

definition is_digit :: "char \<Rightarrow> bool" where
  "is_digit c = (let n = (of_char c :: nat) in 48 \<le> n \<and> n \<le> 57)"

text \<open>The character class \<open>[A-Za-z0-9._]\<close> of \<open>EMAIL_REGEXP\<close>.\<close>

definition email_char :: "char \<Rightarrow> bool" where
  "email_char c = (is_alpha c \<or> is_digit c \<or> c = CHR ''.'' \<or> c = CHR ''_'')"

text \<open>
  The part of \<open>EMAIL_REGEXP\<close> after the \<open>@\<close>: \<open>[A-Za-z0-9._]+\.[A-Za-z]{2,3}$\<close>, with
  \<open>n\<close> the length of the final run of letters.
\<close>

definition email_domain_n :: "nat \<Rightarrow> string \<Rightarrow> bool" where
  "email_domain_n n d =
     (n + 2 \<le> length d \<and>
      list_all is_alpha (drop (length d - n) d) \<and>
      d ! (length d - n - 1) = CHR ''.'' \<and>
      list_all email_char (take (length d - n - 1) d))"

definition email_domain :: "string \<Rightarrow> bool" where
  "email_domain d = (email_domain_n 2 d \<or> email_domain_n 3 d)"

text \<open>
  \<open>EMAIL_REGEXP.test(value.trim())\<close> with
  \<open>/^[A-Za-z0-9._]+\@[A-Za-z0-9._]+\.[A-Za-z]{2,3}$/i\<close>. The class excludes \<open>@\<close>, so the
  local part is the longest prefix inside the class.
\<close>

definition isValidEmail :: "string \<Rightarrow> bool" where
  "isValidEmail v =
     (let s = trim v; l = takeWhile email_char s; r = dropWhile email_char s
      in l \<noteq> [] \<and> (case r of [] \<Rightarrow> False | c # d \<Rightarrow> c = CHR ''@'' \<and> email_domain d))"

text \<open>The idiom \<open>isValid(x) ? x.trim() : false\<close> on an optional string.\<close>

definition valid_trim :: "(string \<Rightarrow> bool) \<Rightarrow> string option \<Rightarrow> string option" where
  "valid_trim ok v = (case v of None \<Rightarrow> None | Some s \<Rightarrow> if ok s then Some (trim s) else None)"

section \<open>Records of the data model\<close>

text \<open>
  JavaScript numbers are modelled exactly: time stamps (\<open>Date.now()\<close>, milliseconds) are
  integers, prices, quantities and totals are rationals. Rounding of IEEE doubles is not
  modelled.
\<close>

type_synonym items_map = "(string \<times> rat) list"

text \<open>The object the payment gateway answers with, as far as \<open>complete\<close> reads it.\<close>

record payment =
  p_id :: string
  p_object :: string
  p_paid :: bool
  p_status :: string

text \<open>
  The JSON shape of an order: the constructor's \<open>params\<close>, the result of \<open>toJSON\<close> and the
  document stored under \<open>orders/\<close>. A field that is absent or of the wrong type is \<open>None\<close>.
\<close>

record order_data =
  od_id :: "string option"
  od_email :: "string option"
  od_createdOn :: "int option"
  od_completedOn :: "int option"
  od_paymentInfo :: "payment option"
  od_total :: "rat option"
  od_items :: "items_map option"

text \<open>
  An instance of class \<open>Order\<close>: its private fields. \<open>None\<close> is \<open>undefined\<close> (or
  \<open>null\<close> for \<open>_paymentInfo\<close>). \<open>_createdOn\<close> and \<open>_total\<close> are numbers from the
  constructor on.
\<close>

record order =
  o_id :: "string option"
  o_email :: "string option"
  o_createdOn :: int
  o_completedOn :: "int option"
  o_paymentInfo :: "payment option"
  o_total :: rat
  o_items :: "items_map option"

section \<open>Class Order: setters, constructor, toJSON\<close>

definition set_id :: "string option \<Rightarrow> order \<Rightarrow> order" where
  "set_id v x = (case valid_trim isValidOrderId v of None \<Rightarrow> x | Some i \<Rightarrow> x\<lparr>o_id := Some i\<rparr>)"

definition set_email :: "string option \<Rightarrow> order \<Rightarrow> order" where
  "set_email v x = (case valid_trim isValidEmail v of None \<Rightarrow> x | Some e \<Rightarrow> x\<lparr>o_email := Some e\<rparr>)"

definition set_createdOn :: "int option \<Rightarrow> order \<Rightarrow> order" where
  "set_createdOn v x = (case v of None \<Rightarrow> x | Some t \<Rightarrow> x\<lparr>o_createdOn := t\<rparr>)"

text \<open>\<open>if (typeof value === "number" && value >= this._createdOn) this._completedOn = value\<close>\<close>

definition set_completedOn :: "int option \<Rightarrow> order \<Rightarrow> order" where
  "set_completedOn v x =
     (case v of None \<Rightarrow> x
      | Some t \<Rightarrow> if o_createdOn x \<le> t then x\<lparr>o_completedOn := Some t\<rparr> else x)"

definition set_paymentInfo :: "payment option \<Rightarrow> order \<Rightarrow> order" where
  "set_paymentInfo v x = x\<lparr>o_paymentInfo := v\<rparr>"

definition set_total :: "rat option \<Rightarrow> order \<Rightarrow> order" where
  "set_total v x = (case v of None \<Rightarrow> x | Some t \<Rightarrow> if 0 \<le> t then x\<lparr>o_total := t\<rparr> else x)"

text \<open>
  The setter of \<open>items\<close>: an object is taken only when every key is a valid item id,
  otherwise the previous \<open>_items\<close> stays.
\<close>

definition set_items :: "items_map option \<Rightarrow> order \<Rightarrow> order" where
  "set_items v x =
     (case v of None \<Rightarrow> x
      | Some m \<Rightarrow> if list_all isValidItemId (map fst m) then x\<lparr>o_items := Some m\<rparr> else x)"

text \<open>
  The constructor, given the reading \<open>now\<close> of \<open>Date.now()\<close> it takes when
  \<open>params.createdOn\<close> is not a number. The fields are assigned through the setters in
  the order of the source; before the constructor runs every private field is undefined.
\<close>

definition new_order :: "int \<Rightarrow> order_data \<Rightarrow> order" where
  "new_order now p =
     (let c = (case od_createdOn p of Some t \<Rightarrow> t | None \<Rightarrow> now);
          o0 = \<lparr>o_id = None, o_email = None, o_createdOn = c, o_completedOn = None,
                o_paymentInfo = None, o_total = 0, o_items = None\<rparr>;
          o1 = set_id (od_id p) o0;
          o2 = set_email (od_email p) o1;
          o3 = set_completedOn
                 (case od_completedOn p of None \<Rightarrow> None
                  | Some t \<Rightarrow> if c \<le> t then Some t else None) o2;
          o4 = set_paymentInfo (od_paymentInfo p) o3;
          o5 = set_total
                 (case od_total p of None \<Rightarrow> Some 0
                  | Some t \<Rightarrow> if 0 \<le> t then Some t else Some 0) o4
      in set_items (case od_items p of None \<Rightarrow> Some [] | Some m \<Rightarrow> Some m) o5)"

text \<open>\<open>toJSON\<close>; \<open>Object.assign({}, undefined)\<close> is the empty object.\<close>

definition order_toJSON :: "order \<Rightarrow> order_data" where
  "order_toJSON x =
     \<lparr>od_id = o_id x, od_email = o_email x, od_createdOn = Some (o_createdOn x),
      od_completedOn = o_completedOn x, od_paymentInfo = o_paymentInfo x,
      od_total = Some (o_total x),
      od_items = Some (case o_items x of None \<Rightarrow> [] | Some m \<Rightarrow> m)\<rparr>"

text \<open>What \<open>Object.keys(order.items)\<close> ranges over; no keys when \<open>_items\<close> is undefined.\<close>

definition item_keys :: "order \<Rightarrow> string list" where
  "item_keys x = (case o_items x of None \<Rightarrow> [] | Some m \<Rightarrow> map fst m)"

section \<open>Documents, environment and process state\<close>

text \<open>The JSON shape of a catalog item (\<open>items/\<close>) and of \<open>Item.toJSON\<close>.\<close>

record item_data =
  it_id :: "string option"
  it_name :: "string option"
  it_unitPrice :: "rat option"

text \<open>The JSON shape of a token (\<open>tokens/\<close>).\<close>

record token_data =
  td_email :: "string option"
  td_id :: "string option"
  td_expiration :: "int option"

text \<open>An instance of class \<open>Token\<close>.\<close>

record token =
  tk_email :: "string option"
  tk_id :: "string option"
  tk_expiration :: "int option"

text \<open>The JSON shape of a user (\<open>users/\<close>, payloads, \<open>User.toJSON\<close>).\<close>

record user_data =
  ud_email :: "string option"
  ud_password :: "string option"
  ud_firstName :: "string option"
  ud_lastName :: "string option"
  ud_streetAddress :: "string option"
  ud_cart :: "items_map option"
  ud_orders :: "string option list option"

text \<open>An instance of class \<open>User\<close>.\<close>

record user =
  u_email :: "string option"
  u_password :: "string option"
  u_firstName :: string
  u_lastName :: string
  u_streetAddress :: string
  u_cart :: items_map
  u_orders :: "string option list"

text \<open>The request \<open>makePayment\<close> sends to the payment gateway.\<close>

record charge =
  ch_amount :: rat
  ch_currency :: string
  ch_source :: string

text \<open>
  The invoice \<open>sendInvoice\<close> mails: recipient, order id, one line per key of the order's
  items (the key, the catalog entry found for it when it is an item, the quantity) and
  the total.
\<close>

record invoice =
  inv_to :: "string option"
  inv_order :: "string option"
  inv_lines :: "(string \<times> item_data option \<times> rat) list"
  inv_total :: rat

text \<open>
  \<open>helpers.ajax\<close> calls back with \<open>{Error: true}\<close> on a status other than 200 and 201,
  with the error of an \<open>error\<close> event, or with \<open>null\<close> and the response text.
\<close>

datatype ajax_err = StatusErr | NetErr

datatype 'a ajax_reply = AjaxErr ajax_err | AjaxOk 'a

datatype dir = Users | Tokens | Orders | Items

datatype fs_op =
    FsCreate dir string
  | FsRead dir string
  | FsUpdate dir string
  | FsDelete dir string
  | FsList dir

text \<open>
  What the code takes from outside: the readings of \<open>Date.now()\<close> and the strings
  \<open>Math.random().toString(36).replace("0.", "")\<close> in the order they are taken, the file
  system operations that fail with an I/O error, the answer of the payment gateway to the
  n-th request (its text parsed by \<open>JSON.parse\<close>; \<open>None\<close> when that throws), the answer
  of the mail API, and \<open>helpers.hash\<close>.
\<close>

record env =
  e_clock :: "nat \<Rightarrow> int"
  e_random :: "nat \<Rightarrow> string"
  e_fault :: "fs_op \<Rightarrow> bool"
  e_gateway :: "nat \<Rightarrow> charge \<Rightarrow> payment option ajax_reply"
  e_mailer :: "nat \<Rightarrow> invoice \<Rightarrow> string ajax_reply"
  e_hash :: "string \<Rightarrow> string"

text \<open>
  The state: the four directories of the data store (one JSON document per key), the
  number of clock readings and of random draws taken so far, the registry \<open>IDs\<close> of
  helpers.js, and the requests sent so far to the payment gateway and to the mail API.
\<close>

record world =
  w_users :: "string \<rightharpoonup> user_data"
  w_tokens :: "string \<rightharpoonup> token_data"
  w_orders :: "string \<rightharpoonup> order_data"
  w_items :: "(string \<times> item_data) list"
  w_tick :: nat
  w_draws :: nat
  w_IDs :: "string list"
  w_charges :: "charge list"
  w_mails :: "invoice list"

text \<open>
  The handlers are asynchronous: each ends by calling its callback once, or never calls it
  (a count of completed reads that is never reached), or throws inside a callback (an
  uncaught exception), or spins in a synchronous loop. A call that is started without
  waiting for it (\<open>token.extend()\<close>, \<open>this.delete()\<close>) is run to its end at the place
  where it is started.
\<close>

datatype 'a outcome = Done 'a | NoCallback | Crash | Diverges

text \<open>The second argument of a handler's callback.\<close>

datatype body =
    BNone
  | BErr string
  | BAjaxErr ajax_err
  | BOrder order_data
  | BUser user_data
  | BCompleted int
  | BPaymentFailed payment
  | BReceipt body "string option"
  | BInvoice string

type_synonym response = "int option \<times> body"

definition date_now :: "env \<Rightarrow> world \<Rightarrow> int \<times> world" where
  "date_now e w = (e_clock e (w_tick w), w\<lparr>w_tick := Suc (w_tick w)\<rparr>)"

section \<open>dataStore.js\<close>

text \<open>
  A directory is a map from file name (without \<open>.json\<close>) to document. \<open>None\<close> is a
  callback with an error. An operation that fails leaves the directory as it was.
\<close>

definition ds_read :: "env \<Rightarrow> dir \<Rightarrow> (string \<rightharpoonup> 'a) \<Rightarrow> string \<Rightarrow> 'a option" where
  "ds_read e d m k = (if e_fault e (FsRead d k) then None else m k)"

text \<open>\<open>fs.open(..., 'wx')\<close> fails when the file exists.\<close>

definition ds_create ::
  "env \<Rightarrow> dir \<Rightarrow> (string \<rightharpoonup> 'a) \<Rightarrow> string \<Rightarrow> 'a \<Rightarrow> (string \<rightharpoonup> 'a) option" where
  "ds_create e d m k v =
     (if e_fault e (FsCreate d k) \<or> m k \<noteq> None then None else Some (m(k \<mapsto> v)))"

text \<open>\<open>fs.open(..., 'r+')\<close> fails when the file does not exist.\<close>

definition ds_update ::
  "env \<Rightarrow> dir \<Rightarrow> (string \<rightharpoonup> 'a) \<Rightarrow> string \<Rightarrow> 'a \<Rightarrow> (string \<rightharpoonup> 'a) option" where
  "ds_update e d m k v =
     (if e_fault e (FsUpdate d k) \<or> m k = None then None else Some (m(k \<mapsto> v)))"

definition ds_delete ::
  "env \<Rightarrow> dir \<Rightarrow> (string \<rightharpoonup> 'a) \<Rightarrow> string \<Rightarrow> (string \<rightharpoonup> 'a) option" where
  "ds_delete e d m k =
     (if e_fault e (FsDelete d k) \<or> m k = None then None else Some (m(k := None)))"

text \<open>\<open>dataStore.list("items", ...)\<close>: an error, or the file names (possibly none).\<close>

definition ds_list_items :: "env \<Rightarrow> world \<Rightarrow> string list option" where
  "ds_list_items e w = (if e_fault e (FsList Items) then None else Some (map fst (w_items w)))"

definition ds_read_item :: "env \<Rightarrow> world \<Rightarrow> string \<Rightarrow> item_data option" where
  "ds_read_item e w k = ds_read e Items (map_of (w_items w)) k"

text \<open>The template string \<open>${file}\<close> of a key that is \<open>null\<close>.\<close>

definition key_of :: "string option \<Rightarrow> string" where
  "key_of v = (case v of None \<Rightarrow> ''null'' | Some k \<Rightarrow> k)"

section \<open>handlers/Item.js\<close>

text \<open>\<open>new Item(itemData).toJSON()\<close>.\<close>

definition item_toJSON :: "item_data \<Rightarrow> item_data" where
  "item_toJSON d =
     \<lparr>it_id = valid_trim isValidItemId (it_id d),
      it_name = Some (case it_name d of None \<Rightarrow> [] | Some n \<Rightarrow> trim n),
      it_unitPrice = Some (case it_unitPrice d of None \<Rightarrow> 0 | Some p \<Rightarrow> if 0 < p then p else 0)\<rparr>"

definition unitPrice :: "item_data \<Rightarrow> rat" where
  "unitPrice i = (case it_unitPrice i of None \<Rightarrow> 0 | Some p \<Rightarrow> p)"

text \<open>
  \<open>Item.list\<close> and \<open>Item.hashmap\<close> call back with status 500 when the directory cannot
  be listed, and with status 200 from the callback of the read that makes the number of
  collected items equal to the number of file names. With no file name, or after a read
  that fails, that never happens.
\<close>

datatype 'a loaded = LoadHang | LoadError | LoadOk 'a

definition Item_list :: "env \<Rightarrow> world \<Rightarrow> item_data list loaded" where
  "Item_list e w =
     (case ds_list_items e w of
        None \<Rightarrow> LoadError
      | Some keys \<Rightarrow>
          (case those (map (ds_read_item e w) keys) of
             None \<Rightarrow> LoadHang
           | Some ds \<Rightarrow> if ds = [] then LoadHang else LoadOk (map item_toJSON ds)))"

text \<open>
  The hashmap is keyed by file name; \<open>Object.keys(items).length === itemCount\<close> is
  reached only when the names are distinct.
\<close>

definition Item_hashmap :: "env \<Rightarrow> world \<Rightarrow> (string \<times> item_data) list loaded" where
  "Item_hashmap e w =
     (case ds_list_items e w of
        None \<Rightarrow> LoadError
      | Some keys \<Rightarrow>
          (case those (map (ds_read_item e w) keys) of
             None \<Rightarrow> LoadHang
           | Some ds \<Rightarrow>
               if ds = [] \<or> \<not> distinct keys then LoadHang
               else LoadOk (zip keys (map item_toJSON ds))))"

text \<open>
  What \<open>items[key]\<close> yields on the second argument of the callback of \<open>Item.hashmap\<close>:
  nothing, a catalog item, or a truthy value that is no item: a property inherited from
  \<open>Object.prototype\<close>, or the message in \<open>{Error: "Unable to load the list of items"}\<close>
  when the status is 500.
\<close>

datatype slot = Absent | NotItem | IsItem item_data

definition object_proto_keys :: "string list" where
  "object_proto_keys =
     [''constructor'', ''__defineGetter__'', ''__defineSetter__'', ''hasOwnProperty'',
      ''__lookupGetter__'', ''__lookupSetter__'', ''isPrototypeOf'',
      ''propertyIsEnumerable'', ''toString'', ''valueOf'', ''__proto__'',
      ''toLocaleString'']"

definition catalog_get :: "(string \<times> item_data) list loaded \<Rightarrow> string \<Rightarrow> slot" where
  "catalog_get c k =
     (case c of
        LoadOk hm \<Rightarrow>
          (case map_of hm k of
             Some i \<Rightarrow> IsItem i
           | None \<Rightarrow> if k \<in> set object_proto_keys then NotItem else Absent)
      | _ \<Rightarrow> if k = ''Error'' \<or> k \<in> set object_proto_keys then NotItem else Absent)"

section \<open>helpers.createRandomString and the registry of identifiers\<close>

definition digit36 :: "nat \<Rightarrow> char" where
  "digit36 d = ''0123456789abcdefghijklmnopqrstuvwxyz'' ! d"

text \<open>\<open>Number.prototype.toString(36)\<close> on an integer.\<close>

fun nat_to_base36 :: "nat \<Rightarrow> string" where
  "nat_to_base36 n =
     (if n < 36 then [digit36 n] else nat_to_base36 (n div 36) @ [digit36 (n mod 36)])"

declare nat_to_base36.simps [simp del]

definition to_base36 :: "int \<Rightarrow> string" where
  "to_base36 i = (if i < 0 then CHR ''-'' # nat_to_base36 (nat (- i)) else nat_to_base36 (nat i))"

text \<open>
  The loop \<open>do { sId = Date.now().toString(36) + Math.random()...; } while
  (IDs.hasOwnProperty(sId) || sId.length !== 21)\<close>. Each round takes one clock reading
  and one random draw; the result is the accepted candidate with the numbers of readings
  and draws taken. The loop need not end.
\<close>

partial_function (option) fresh_sId ::
  "env \<Rightarrow> string list \<Rightarrow> nat \<Rightarrow> nat \<Rightarrow> (string \<times> nat \<times> nat) option" where
  "fresh_sId e ids t r =
     (let sId = to_base36 (e_clock e t) @ e_random e r
      in if sId \<in> set ids \<or> length sId \<noteq> 21 then fresh_sId e ids (Suc t) (Suc r)
         else Some (sId, Suc t, Suc r))"

declare fresh_sId.simps [code]

text \<open>
  \<open>createRandomString(strLength)\<close>: the accepted candidate is entered in \<open>IDs\<close> and its
  last \<open>strLength\<close> characters are returned.
\<close>

definition createRandomString :: "env \<Rightarrow> nat \<Rightarrow> world \<Rightarrow> (string \<times> world) option" where
  "createRandomString e strLength w =
     (let n = (if 0 < strLength \<and> strLength \<le> 21 then strLength else 21)
      in case fresh_sId e (w_IDs w) (w_tick w) (w_draws w) of
           None \<Rightarrow> None
         | Some (sId, t, r) \<Rightarrow>
             Some (drop (21 - n) sId, w\<lparr>w_tick := t, w_draws := r, w_IDs := sId # w_IDs w\<rparr>))"

text \<open>\<open>Order.createUniqueId\<close>.\<close>

definition createUniqueId :: "env \<Rightarrow> world \<Rightarrow> (string \<times> world) option" where
  "createUniqueId e w = createRandomString e 20 w"

section \<open>handlers/Token.js\<close>

definition new_token :: "token_data \<Rightarrow> token" where
  "new_token p =
     \<lparr>tk_email = valid_trim isValidEmail (td_email p),
      tk_id = valid_trim isValidTokenId (td_id p),
      tk_expiration = td_expiration p\<rparr>"

text \<open>The getter \<open>this._expiration || null\<close>, as the number a comparison converts it to.\<close>

definition expiration_num :: "int option \<Rightarrow> int" where
  "expiration_num v = (case v of None \<Rightarrow> 0 | Some t \<Rightarrow> t)"

definition token_toJSON :: "token \<Rightarrow> token_data" where
  "token_toJSON t =
     \<lparr>td_email = tk_email t, td_id = tk_id t,
      td_expiration = (if expiration_num (tk_expiration t) = 0 then None else tk_expiration t)\<rparr>"

text \<open>\<open>Token.delete({queryParams: {id: ...}}, callback)\<close>.\<close>

definition Token_delete :: "env \<Rightarrow> string option \<Rightarrow> world \<Rightarrow> response \<times> world" where
  "Token_delete e qid w =
     (case valid_trim isValidTokenId qid of
        None \<Rightarrow> ((Some 400, BErr ''Missing required field''), w)
      | Some tid \<Rightarrow>
          (case ds_read e Tokens (w_tokens w) tid of
             None \<Rightarrow> ((Some 400, BErr ''Could not find the specified token.''), w)
           | Some td \<Rightarrow>
               if tk_id (new_token td) = Some tid then
                 (case ds_delete e Tokens (w_tokens w) tid of
                    Some m \<Rightarrow> ((Some 200, BNone), w\<lparr>w_tokens := m\<rparr>)
                  | None \<Rightarrow> ((Some 500, BErr ''Could not delete the specified token''), w))
               else ((Some 400, BErr ''Could not find the specified token.''), w)))"

text \<open>
  \<open>Token.put({payload: {id: ..., extend: true}}, callback)\<close>, the body of
  \<open>token.extend()\<close>. When the stored token carries another id no branch calls back.
\<close>

definition Token_put_extend :: "env \<Rightarrow> string option \<Rightarrow> world \<Rightarrow> response outcome \<times> world" where
  "Token_put_extend e pid w =
     (case valid_trim isValidTokenId pid of
        None \<Rightarrow> (Done (Some 400, BErr ''Missing required field(s) or field(s) are invalid.''), w)
      | Some tid \<Rightarrow>
          (case ds_read e Tokens (w_tokens w) tid of
             None \<Rightarrow> (Done (Some 404, BErr ''A token with the given ID cannot be found''), w)
           | Some td \<Rightarrow>
               let t = new_token td in
               if tk_id t \<noteq> Some tid then (NoCallback, w)
               else
                 let (now1, w1) = date_now e w in
                 if now1 < expiration_num (tk_expiration t) then
                   let (now2, w2) = date_now e w1;
                       t' = t\<lparr>tk_expiration := Some (now2 + 1000 * 60 * 60)\<rparr>
                   in (case ds_update e Tokens (w_tokens w2) tid (token_toJSON t') of
                         Some m \<Rightarrow> (Done (Some 200, BNone), w2\<lparr>w_tokens := m\<rparr>)
                       | None \<Rightarrow>
                           (Done (Some 500, BErr ''Could not update this token's expiration.''), w2))
                 else
                   (case ds_delete e Tokens (w_tokens w1) tid of
                      Some m \<Rightarrow>
                        (Done (Some 400,
                           BErr ''The token cannot be extended (it is expired and deleted).''),
                         w1\<lparr>w_tokens := m\<rparr>)
                    | None \<Rightarrow>
                        (Done (Some 500,
                           BErr ''The token cannot be extended (it is expired, but could not be deleted).''),
                         w1))))"

text \<open>\<open>token.extend()\<close> without a callback: only the effect on the state remains.\<close>

definition token_extend :: "env \<Rightarrow> token \<Rightarrow> world \<Rightarrow> world" where
  "token_extend e t w = snd (Token_put_extend e (tk_id t) w)"

text \<open>
  \<open>token.isValid(callback)\<close>: the argument of the callback and the state after the
  deletion that follows a negative answer on a token that was read.
\<close>

definition token_isValid :: "env \<Rightarrow> token \<Rightarrow> world \<Rightarrow> bool \<times> world" where
  "token_isValid e t w =
     (case ds_read e Tokens (w_tokens w) (key_of (tk_id t)) of
        None \<Rightarrow> (False, w)
      | Some td \<Rightarrow>
          if td_id td \<noteq> None \<and> td_id td = tk_id t then
            let (now, w1) = date_now e w in
            if now < expiration_num (td_expiration td) then (True, w1)
            else (False, snd (Token_delete e (tk_id t) w1))
          else (False, snd (Token_delete e (tk_id t) w)))"

section \<open>handlers/Order.js: post, put, complete\<close>

text \<open>
  \<open>Object.keys(cartItems).forEach(...)\<close> deletes every key that is not the \<open>id\<close> of an
  entry of the list \<open>Item.list\<close> delivered.
\<close>

definition filter_cart :: "item_data list \<Rightarrow> items_map \<Rightarrow> items_map" where
  "filter_cart items cart = filter (\<lambda>(k, q). Some k \<in> set (map it_id items)) cart"

text \<open>
  \<open>Order.post({payload: {email, items}}, callback)\<close>. On status 500 of \<open>Item.list\<close> the
  callback applies \<open>reduce\<close> to an object that has none and throws.
\<close>

definition Order_post ::
  "env \<Rightarrow> string option \<Rightarrow> items_map option \<Rightarrow> world \<Rightarrow> response outcome \<times> world" where
  "Order_post e p_email p_items w =
     (case valid_trim isValidEmail p_email of
        None \<Rightarrow> (Done (Some 400, BErr ''Missing required field''), w)
      | Some email \<Rightarrow>
          (case Item_list e w of
             LoadHang \<Rightarrow> (NoCallback, w)
           | LoadError \<Rightarrow> (Crash, w)
           | LoadOk items \<Rightarrow>
               let cartItems = filter_cart items (case p_items of None \<Rightarrow> [] | Some m \<Rightarrow> m)
               in if cartItems \<noteq> [] then
                    (case createUniqueId e w of
                       None \<Rightarrow> (Diverges, w)
                     | Some (uid, w1) \<Rightarrow>
                         let (now, w2) = date_now e w1;
                             x = new_order now
                                   \<lparr>od_id = Some uid, od_email = Some email, od_createdOn = None,
                                    od_completedOn = None, od_paymentInfo = None,
                                    od_total = None, od_items = Some cartItems\<rparr>;
                             orderData = order_toJSON x
                         in (case ds_create e Orders (w_orders w2) (key_of (o_id x)) orderData of
                               Some m \<Rightarrow> (Done (Some 200, BOrder orderData), w2\<lparr>w_orders := m\<rparr>)
                             | None \<Rightarrow>
                                 (Done (Some 500, BErr ''Could not create the new order''), w2)))
                  else (Done (Some 400, BErr ''Cannot create order. User's cart is empty''), w)))"

text \<open>
  The constructor applied to a stored document: it reads the clock only when the document
  has no \<open>createdOn\<close>.
\<close>

definition construct_order :: "env \<Rightarrow> order_data \<Rightarrow> world \<Rightarrow> order \<times> world" where
  "construct_order e d w =
     (case od_createdOn d of
        Some t \<Rightarrow> (new_order t d, w)
      | None \<Rightarrow> (let (now, w1) = date_now e w in (new_order now d, w1)))"

text \<open>The truthiness of an optional number: \<open>if (completedOn)\<close>, \<open>if (total)\<close>.\<close>

definition truthy_int :: "int option \<Rightarrow> bool" where
  "truthy_int v = (case v of None \<Rightarrow> False | Some t \<Rightarrow> t \<noteq> 0)"

definition truthy_rat :: "rat option \<Rightarrow> bool" where
  "truthy_rat v = (case v of None \<Rightarrow> False | Some t \<Rightarrow> t \<noteq> 0)"

text \<open>The fields \<open>Order.put\<close> overwrites in the document it has read.\<close>

definition put_fields ::
  "string option \<Rightarrow> order_data \<Rightarrow> items_map \<Rightarrow> order_data \<Rightarrow> order_data" where
  "put_fields email p cartItems d =
     (let d1 = (case email of None \<Rightarrow> d | Some em \<Rightarrow> d\<lparr>od_email := Some em\<rparr>);
          d2 = (if truthy_int (od_completedOn p) then d1\<lparr>od_completedOn := od_completedOn p\<rparr>
                else d1);
          d3 = (case od_paymentInfo p of None \<Rightarrow> d2 | Some pinfo \<Rightarrow> d2\<lparr>od_paymentInfo := Some pinfo\<rparr>);
          d4 = (if truthy_rat (od_total p) then d3\<lparr>od_total := od_total p\<rparr> else d3)
      in if cartItems \<noteq> [] then d4\<lparr>od_items := Some cartItems\<rparr> else d4)"

text \<open>
  \<open>Order.put({payload}, callback)\<close>. \<open>data.payload.id.trim()\<close> throws when the id is not
  a string.
\<close>

definition Order_put :: "env \<Rightarrow> order_data \<Rightarrow> world \<Rightarrow> response outcome \<times> world" where
  "Order_put e p w =
     (case od_id p of
        None \<Rightarrow> (Crash, w)
      | Some raw \<Rightarrow>
          if \<not> isValidOrderId (trim raw) then (Done (Some 400, BErr ''Missing required field.''), w)
          else
            (case Item_list e w of
               LoadHang \<Rightarrow> (NoCallback, w)
             | LoadError \<Rightarrow> (Crash, w)
             | LoadOk items \<Rightarrow>
                 let oid = trim raw;
                     email = valid_trim isValidEmail (od_email p);
                     cartItems = filter_cart items (case od_items p of None \<Rightarrow> [] | Some m \<Rightarrow> m)
                 in if email \<noteq> None \<or> truthy_int (od_completedOn p) \<or> od_paymentInfo p \<noteq> None \<or>
                       (case od_total p of None \<Rightarrow> False | Some t \<Rightarrow> 0 < t) \<or> cartItems \<noteq> []
                    then
                      (case ds_read e Orders (w_orders w) oid of
                         None \<Rightarrow> (Done (Some 400, BErr ''Specified order does not exist.''), w)
                       | Some d \<Rightarrow>
                           let (x, w1) = construct_order e (put_fields email p cartItems d) w
                           in if o_id x = Some oid then
                                (case ds_update e Orders (w_orders w1) oid (order_toJSON x) of
                                   Some m \<Rightarrow>
                                     (Done (Some 200, BOrder (order_toJSON x)), w1\<lparr>w_orders := m\<rparr>)
                                 | None \<Rightarrow>
                                     (Done (Some 500, BErr ''Could not update the specified order.''),
                                      w1))
                              else (Done (Some 400, BErr ''Could not update the specified order''), w1))
                    else (Done (Some 400, BErr ''Missing fields to update.''), w)))"

text \<open>
  The total of \<open>complete\<close>: \<open>reduce\<close> over the keys of the order's items, from 0, adding
  \<open>items[key].unitPrice * orderItemsMap[key]\<close> for every key at which \<open>items[key]\<close> is
  truthy. \<open>None\<close> is \<open>NaN\<close>, the sum once \<open>items[key]\<close> was a truthy value without a
  \<open>unitPrice\<close>.
\<close>

definition add_item ::
  "(string \<times> item_data) list loaded \<Rightarrow> string \<times> rat \<Rightarrow> rat option \<Rightarrow> rat option" where
  "add_item c kq acc =
     (case catalog_get c (fst kq) of
        Absent \<Rightarrow> acc
      | NotItem \<Rightarrow> None
      | IsItem i \<Rightarrow> (case acc of None \<Rightarrow> None | Some s \<Rightarrow> Some (s + unitPrice i * snd kq)))"

definition order_total :: "(string \<times> item_data) list loaded \<Rightarrow> items_map \<Rightarrow> rat option" where
  "order_total c m = fold (add_item c) m (Some 0)"

text \<open>\<open>options.stripeToken || "tok_visa"\<close>.\<close>

definition source_of :: "string option \<Rightarrow> string" where
  "source_of v = (case v of None \<Rightarrow> ''tok_visa'' | Some s \<Rightarrow> if s = [] then ''tok_visa'' else s)"

datatype pay_result = PayInvalid | PayErr ajax_err | PayBody "payment option"

text \<open>
  \<open>makePayment(options, callback)\<close>: one request to the gateway, for \<open>this.total * 100\<close>,
  when the total is positive.
\<close>

definition makePayment :: "env \<Rightarrow> string option \<Rightarrow> order \<Rightarrow> world \<Rightarrow> pay_result \<times> world" where
  "makePayment e stripeToken x w =
     (if 0 < o_total x then
        let c = \<lparr>ch_amount = o_total x * 100, ch_currency = ''USD'',
                 ch_source = source_of stripeToken\<rparr>;
            w1 = w\<lparr>w_charges := w_charges w @ [c]\<rparr>
        in (case e_gateway e (length (w_charges w)) c of
              AjaxErr err \<Rightarrow> (PayErr err, w1)
            | AjaxOk b \<Rightarrow> (PayBody b, w1))
      else (PayInvalid, w))"

datatype mail_cb = CbStatus500 | CbErr ajax_err | CbOk string

text \<open>
  \<open>sendInvoice(callback)\<close>. Building the table reads \<open>item.name\<close> for every key of the
  order's items and throws at a key for which \<open>items[itemId]\<close> is undefined.
\<close>

definition invoice_of :: "(string \<times> item_data) list \<Rightarrow> order \<Rightarrow> invoice" where
  "invoice_of hm x =
     \<lparr>inv_to = o_email x, inv_order = o_id x,
      inv_lines = map (\<lambda>(k, q). (k, map_of hm k, q)) (case o_items x of None \<Rightarrow> [] | Some m \<Rightarrow> m),
      inv_total = o_total x\<rparr>"

definition sendInvoice :: "env \<Rightarrow> order \<Rightarrow> world \<Rightarrow> mail_cb outcome \<times> world" where
  "sendInvoice e x w =
     (case Item_hashmap e w of
        LoadHang \<Rightarrow> (NoCallback, w)
      | LoadError \<Rightarrow> (Done CbStatus500, w)
      | LoadOk hm \<Rightarrow>
          (case o_items x of
             None \<Rightarrow> (Crash, w)
           | Some m \<Rightarrow>
               if \<exists>k \<in> set (map fst m). catalog_get (LoadOk hm) k = Absent then (Crash, w)
               else
                 let inv = invoice_of hm x;
                     w1 = w\<lparr>w_mails := w_mails w @ [inv]\<rparr>
                 in (case e_mailer e (length (w_mails w)) inv of
                       AjaxErr err \<Rightarrow> (Done (CbErr err), w1)
                     | AjaxOk res \<Rightarrow> (Done (CbOk res), w1))))"

text \<open>
  The guard at the head of \<open>complete\<close>:
  \<open>if (this.completedOn && this.createdOn <= this.completedOn)\<close>.
\<close>

definition completed_at :: "order \<Rightarrow> int option" where
  "completed_at x =
     (case o_completedOn x of
        None \<Rightarrow> None
      | Some c \<Rightarrow> if c \<noteq> 0 \<and> o_createdOn x \<le> c then Some c else None)"

definition positive :: "rat option \<Rightarrow> bool" where
  "positive t = (case t of None \<Rightarrow> False | Some v \<Rightarrow> 0 < v)"

text \<open>
  The callback of \<open>sendInvoice\<close> inside \<open>complete\<close>: \<open>if (statusCode)\<close> answers with the
  status of \<open>Order.put\<close> and the receipt, otherwise with \<open>statusCode\<close> and the result of
  the mail API.
\<close>

definition invoice_response :: "response \<Rightarrow> order \<Rightarrow> mail_cb \<Rightarrow> response" where
  "invoice_response put_resp x cb =
     (case cb of
        CbOk res \<Rightarrow> (None, BInvoice res)
      | _ \<Rightarrow> (fst put_resp, BReceipt (snd put_resp) (o_email x)))"

text \<open>After a successful charge: \<open>Order.put\<close> with \<open>this.toJSON()\<close>, then \<open>sendInvoice\<close>.\<close>

definition complete_record :: "env \<Rightarrow> order \<Rightarrow> world \<Rightarrow> response outcome \<times> order \<times> world" where
  "complete_record e x w =
     (case Order_put e (order_toJSON x) w of
        (Done put_resp, w1) \<Rightarrow>
          (case sendInvoice e x w1 of
             (Done cb, w2) \<Rightarrow> (Done (invoice_response put_resp x cb), x, w2)
           | (NoCallback, w2) \<Rightarrow> (NoCallback, x, w2)
           | (Crash, w2) \<Rightarrow> (Crash, x, w2)
           | (Diverges, w2) \<Rightarrow> (Diverges, x, w2))
      | (NoCallback, w1) \<Rightarrow> (NoCallback, x, w1)
      | (Crash, w1) \<Rightarrow> (Crash, x, w1)
      | (Diverges, w1) \<Rightarrow> (Diverges, x, w1))"

definition charge_ok :: "payment \<Rightarrow> bool" where
  "charge_ok p = (p_object p = ''charge'' \<and> p_paid p \<and> p_status p = ''succeeded'')"

text \<open>The callback of \<open>makePayment\<close> inside \<open>complete\<close>.\<close>

definition complete_pay ::
  "env \<Rightarrow> string option \<Rightarrow> order \<Rightarrow> world \<Rightarrow> response outcome \<times> order \<times> world" where
  "complete_pay e stripeToken x w =
     (case makePayment e stripeToken x w of
        (PayInvalid, w1) \<Rightarrow> (Done (Some 400, BErr ''Invalid payment amount''), x, w1)
      | (PayErr err, w1) \<Rightarrow> (Done (Some 400, BAjaxErr err), x, w1)
      | (PayBody None, w1) \<Rightarrow> (Crash, x, w1)
      | (PayBody (Some p), w1) \<Rightarrow>
          if charge_ok p then
            let (now, w2) = date_now e w1
            in complete_record e (set_completedOn (Some now) (set_paymentInfo (Some p) x)) w2
          else (Done (Some 400, BPaymentFailed p), x, w1))"

text \<open>
  \<open>order.complete(options, callback)\<close>: the callback's arguments, the order object and
  the state afterwards. (The name \<open>complete\<close> alone is a constant of the library.)
\<close>

definition Order_complete ::
  "env \<Rightarrow> string option \<Rightarrow> order \<Rightarrow> world \<Rightarrow> response outcome \<times> order \<times> world" where
  "Order_complete e stripeToken x w =
     (case completed_at x of
        Some c \<Rightarrow> (Done (Some 200, BCompleted c), x, w)
      | None \<Rightarrow>
          (case Item_hashmap e w of
             LoadHang \<Rightarrow> (NoCallback, x, w)
           | c \<Rightarrow>
               (case o_items x of
                  None \<Rightarrow> (Crash, x, w)
                | Some m \<Rightarrow>
                    let total = order_total c m
                    in if positive total then complete_pay e stripeToken (set_total total x) w
                       else (Done (Some 400, BErr ''This order contains no items.''), x, w))))"

section \<open>The total as the specification words it\<close>



text \<open>The invariant of the data model: \<open>completedOn\<close>, when set, is not before \<open>createdOn\<close>.\<close>

definition completedOn_ok :: "order \<Rightarrow> bool" where
  "completedOn_ok x = (case o_completedOn x of None \<Rightarrow> True | Some c \<Rightarrow> o_createdOn x \<le> c)"

section \<open>handlers/User.js: get, put, checkout\<close>

definition new_user :: "user_data \<Rightarrow> user" where
  "new_user p =
     \<lparr>u_email = valid_trim isValidEmail (ud_email p),
      u_password = valid_trim isValidPassword (ud_password p),
      u_firstName = (case ud_firstName p of None \<Rightarrow> [] | Some s \<Rightarrow> trim s),
      u_lastName = (case ud_lastName p of None \<Rightarrow> [] | Some s \<Rightarrow> trim s),
      u_streetAddress = (case ud_streetAddress p of None \<Rightarrow> [] | Some s \<Rightarrow> trim s),
      u_cart = (case ud_cart p of None \<Rightarrow> [] | Some m \<Rightarrow> m),
      u_orders = (case ud_orders p of None \<Rightarrow> [] | Some l \<Rightarrow> l)\<rparr>"

definition user_toJSON :: "user \<Rightarrow> user_data" where
  "user_toJSON u =
     \<lparr>ud_email = u_email u, ud_password = u_password u,
      ud_firstName = Some (u_firstName u), ud_lastName = Some (u_lastName u),
      ud_streetAddress = Some (u_streetAddress u),
      ud_cart = Some (u_cart u), ud_orders = Some (u_orders u)\<rparr>"

definition no_token :: response where
  "no_token = (Some 403, BErr ''Missing required token in header, or token is invalid.'')"

text \<open>
  \<open>User.get(data, callback)\<close> with \<open>data.queryParams.email\<close> and \<open>data.headers.tokenid\<close>.
  After the user was looked up the token is extended.
\<close>

definition User_get :: "env \<Rightarrow> string option \<Rightarrow> string option \<Rightarrow> world \<Rightarrow> response \<times> world" where
  "User_get e q_email h_tokenid w =
     (case valid_trim isValidEmail q_email of
        None \<Rightarrow> ((Some 400, BErr ''Missing required field''), w)
      | Some email \<Rightarrow>
          (case valid_trim isValidTokenId h_tokenid of
             None \<Rightarrow> (no_token, w)
           | Some tokenId \<Rightarrow>
               let t = new_token \<lparr>td_email = Some email, td_id = Some tokenId, td_expiration = None\<rparr>
               in (case token_isValid e t w of
                     (False, w1) \<Rightarrow> (no_token, w1)
                   | (True, w1) \<Rightarrow>
                       ((case ds_read e Users (w_users w1) email of
                           Some d \<Rightarrow> (Some 200, BUser ((user_toJSON (new_user d))\<lparr>ud_password := None\<rparr>))
                         | None \<Rightarrow> (Some 404, BNone)),
                        token_extend e t w1))))"

text \<open>The idiom \<open>typeof v === "string" && v.trim().length ? v.trim() : false\<close>.\<close>

definition nonempty_trim :: "string option \<Rightarrow> string option" where
  "nonempty_trim v = (case v of None \<Rightarrow> None | Some s \<Rightarrow> if trim s = [] then None else Some (trim s))"

text \<open>The fields \<open>User.put\<close> overwrites in the document it has read.\<close>

definition user_put_fields :: "env \<Rightarrow> user_data \<Rightarrow> user_data \<Rightarrow> user_data" where
  "user_put_fields e p d =
     (let d1 = (case nonempty_trim (ud_firstName p) of None \<Rightarrow> d
                | Some s \<Rightarrow> d\<lparr>ud_firstName := Some s\<rparr>);
          d2 = (case nonempty_trim (ud_lastName p) of None \<Rightarrow> d1
                | Some s \<Rightarrow> d1\<lparr>ud_lastName := Some s\<rparr>);
          d3 = (case valid_trim isValidPassword (ud_password p) of None \<Rightarrow> d2
                | Some s \<Rightarrow> d2\<lparr>ud_password := Some (e_hash e s)\<rparr>);
          d4 = (case nonempty_trim (ud_streetAddress p) of None \<Rightarrow> d3
                | Some s \<Rightarrow> d3\<lparr>ud_streetAddress := Some s\<rparr>);
          d5 = (case ud_cart p of None \<Rightarrow> d4 | Some m \<Rightarrow> d4\<lparr>ud_cart := Some m\<rparr>)
      in case ud_orders p of None \<Rightarrow> d5 | Some l \<Rightarrow> d5\<lparr>ud_orders := Some l\<rparr>)"

text \<open>\<open>User.put(data, callback)\<close> with \<open>data.payload\<close> and \<open>data.headers.tokenid\<close>.\<close>

definition User_put :: "env \<Rightarrow> user_data \<Rightarrow> string option \<Rightarrow> world \<Rightarrow> response \<times> world" where
  "User_put e p h_tokenid w =
     (case valid_trim isValidEmail (ud_email p) of
        None \<Rightarrow> ((Some 400, BErr ''Missing required field.''), w)
      | Some email \<Rightarrow>
          if nonempty_trim (ud_firstName p) = None \<and> nonempty_trim (ud_lastName p) = None \<and>
             valid_trim isValidPassword (ud_password p) = None \<and>
             nonempty_trim (ud_streetAddress p) = None \<and> ud_cart p = None \<and> ud_orders p = None
          then ((Some 400, BErr ''Missing fields to update.''), w)
          else
            (case (case h_tokenid of None \<Rightarrow> None
                   | Some s \<Rightarrow> if isValidTokenId s then Some s else None) of
               None \<Rightarrow> (no_token, w)
             | Some tokenId \<Rightarrow>
                 let t = new_token \<lparr>td_email = Some email, td_id = Some tokenId,
                                    td_expiration = None\<rparr>
                 in (case token_isValid e t w of
                       (False, w1) \<Rightarrow> (no_token, w1)
                     | (True, w1) \<Rightarrow>
                         (case ds_read e Users (w_users w1) email of
                            None \<Rightarrow> ((Some 400, BErr ''Specified user does not exist.''), w1)
                          | Some d \<Rightarrow>
                              let u = new_user (user_put_fields e p d)
                              in if u_email u = Some email then
                                   (case ds_update e Users (w_users w1) email (user_toJSON u) of
                                      Some m \<Rightarrow>
                                        ((Some 200, BUser (user_toJSON u)),
                                         token_extend e t (w1\<lparr>w_users := m\<rparr>))
                                    | None \<Rightarrow>
                                        ((Some 500, BErr ''Could not update the specified user.''),
                                         token_extend e t w1))
                                 else
                                   ((Some 400, BErr ''Could not update the specified user''),
                                    token_extend e t w1)))))"

text \<open>
  A callback argument read as the \<open>params\<close> of a constructor: an object that is no user
  (no order) has none of the fields; \<open>undefined\<close> is falsy.
\<close>

definition no_user_fields :: user_data where
  "no_user_fields =
     \<lparr>ud_email = None, ud_password = None, ud_firstName = None, ud_lastName = None,
      ud_streetAddress = None, ud_cart = None, ud_orders = None\<rparr>"

definition no_order_fields :: order_data where
  "no_order_fields =
     \<lparr>od_id = None, od_email = None, od_createdOn = None, od_completedOn = None,
      od_paymentInfo = None, od_total = None, od_items = None\<rparr>"

definition as_user :: "body \<Rightarrow> user_data option" where
  "as_user b = (case b of BNone \<Rightarrow> None | BUser d \<Rightarrow> Some d | _ \<Rightarrow> Some no_user_fields)"

definition as_order :: "body \<Rightarrow> order_data option" where
  "as_order b = (case b of BNone \<Rightarrow> None | BOrder d \<Rightarrow> Some d | _ \<Rightarrow> Some no_order_fields)"

text \<open>
  Step 8 of \<open>checkout\<close>, the callback of \<open>order.complete\<close> on status 200: the order id
  is appended to the user's orders, the cart is emptied, and the user is stored with
  \<open>User.put\<close>. The answer is the payment on status 200 of \<open>User.put\<close>, and the answer of
  \<open>User.put\<close> otherwise.
\<close>

definition checkout_record_user ::
  "env \<Rightarrow> string option \<Rightarrow> user \<Rightarrow> order \<Rightarrow> body \<Rightarrow> world \<Rightarrow> response \<times> world" where
  "checkout_record_user e h_tokenid u x payment w =
     (let u' = u\<lparr>u_orders := u_orders u @ [o_id x], u_cart := []\<rparr>;
          (put_resp, w1) =
            User_put e
              \<lparr>ud_email = u_email u', ud_password = None, ud_firstName = None,
               ud_lastName = None, ud_streetAddress = None, ud_cart = Some (u_cart u'),
               ud_orders = Some (u_orders u')\<rparr> h_tokenid w
      in if fst put_resp = Some 200 then ((Some 200, payment), w1) else (put_resp, w1))"

text \<open>Steps 6 and 7: the callback of \<open>User.get\<close> on status 200 with a non-empty cart.\<close>

definition checkout_order ::
  "env \<Rightarrow> string option \<Rightarrow> string option \<Rightarrow> user \<Rightarrow> world \<Rightarrow> response outcome \<times> world" where
  "checkout_order e p_stripeToken h_tokenid u w =
     (case Order_post e (u_email u) (Some (u_cart u)) w of
        (Done post_resp, w1) \<Rightarrow>
          (case (if fst post_resp = Some 200 then as_order (snd post_resp) else None) of
             None \<Rightarrow> (Done post_resp, w1)
           | Some orderData \<Rightarrow>
               let (x, w2) = construct_order e orderData w1
               in (case Order_complete e (Some (source_of p_stripeToken)) x w2 of
                     (Done resp, x', w3) \<Rightarrow>
                       if fst resp = Some 200
                       then (case checkout_record_user e h_tokenid u x' (snd resp) w3 of
                               (r, w4) \<Rightarrow> (Done r, w4))
                       else (Done resp, w3)
                   | (NoCallback, x', w3) \<Rightarrow> (NoCallback, w3)
                   | (Crash, x', w3) \<Rightarrow> (Crash, w3)
                   | (Diverges, x', w3) \<Rightarrow> (Diverges, w3)))
      | other \<Rightarrow> other)"

text \<open>
  \<open>User.checkout(data, callback)\<close> with \<open>data.payload.email\<close>,
  \<open>data.payload.stripeToken\<close> and \<open>data.headers.tokenid\<close>; \<open>data.queryParams\<close> is the
  object the server passes. The answer is the pair of arguments of the callback.
\<close>

definition checkout ::
  "env \<Rightarrow> string option \<Rightarrow> string option \<Rightarrow> string option \<Rightarrow> world \<Rightarrow> response outcome \<times> world" where
  "checkout e p_email p_stripeToken h_tokenid w =
     (case valid_trim isValidEmail p_email of
        None \<Rightarrow> (Done (Some 400, BErr ''Missing required field''), w)
      | Some email \<Rightarrow>
          (case valid_trim isValidTokenId h_tokenid of
             None \<Rightarrow> (Done no_token, w)
           | Some tokenId \<Rightarrow>
               let t = new_token \<lparr>td_email = Some email, td_id = Some tokenId, td_expiration = None\<rparr>
               in (case token_isValid e t w of
                     (False, w1) \<Rightarrow> (Done no_token, w1)
                   | (True, w1) \<Rightarrow>
                       let (get_resp, w2) = User_get e (Some email) h_tokenid w1;
                           w3 = token_extend e t w2
                       in (case (if fst get_resp = Some 200 then as_user (snd get_resp) else None) of
                             None \<Rightarrow> (Done get_resp, w3)
                           | Some userData \<Rightarrow>
                               let u = new_user userData
                               in if u_cart u \<noteq> []
                                  then checkout_order e p_stripeToken h_tokenid u w3
                                  else (Done (Some 403, BErr ''Cannot create order. Cart is empty.''),
                                        w3)))))"


section \<open>Data of the concrete instances\<close>

text \<open>
  A catalog of two items at 10.00 and 5.00 and a third at 7.50, a user with two units of
  the third in the cart, a token, a gateway that accepts every charge, a clock that
  advances by a millisecond per reading, and a mail API that accepts or refuses.
\<close>

definition ex_payment :: payment where
  "ex_payment = \<lparr>p_id = ''ch_1'', p_object = ''charge'', p_paid = True, p_status = ''succeeded''\<rparr>"

definition ex_env :: env where
  "ex_env =
     \<lparr>e_clock = (\<lambda>n. 1567283281920 + int n), e_random = (\<lambda>n. ''00000000000ab''),
      e_fault = (\<lambda>_. False), e_gateway = (\<lambda>n c. AjaxOk (Some ex_payment)),
      e_mailer = (\<lambda>n i. AjaxOk ''Queued. Thank you.''), e_hash = (\<lambda>s. s)\<rparr>"

definition ex_env_mail_refused :: env where
  "ex_env_mail_refused = ex_env\<lparr>e_mailer := (\<lambda>n i. AjaxErr StatusErr)\<rparr>"

definition ex_items :: "(string \<times> item_data) list" where
  "ex_items =
     [(''itemAAAAAA'', \<lparr>it_id = Some ''itemAAAAAA'', it_name = Some ''Margherita'',
                       it_unitPrice = Some 10\<rparr>),
      (''itemBBBBBB'', \<lparr>it_id = Some ''itemBBBBBB'', it_name = Some ''Cola'',
                       it_unitPrice = Some 5\<rparr>),
      (''itemXXXXXX'', \<lparr>it_id = Some ''itemXXXXXX'', it_name = Some ''Calzone'',
                       it_unitPrice = Some (15 / 2)\<rparr>)]"

definition ex_user :: user_data where
  "ex_user =
     \<lparr>ud_email = Some ''joe@pizza.io'', ud_password = Some ''0a1b2c3d'',
      ud_firstName = Some ''Joe'', ud_lastName = Some ''Doe'',
      ud_streetAddress = Some ''1 Main St'', ud_cart = Some [(''itemXXXXXX'', 2)],
      ud_orders = Some []\<rparr>"

definition ex_token :: token_data where
  "ex_token =
     \<lparr>td_email = Some ''joe@pizza.io'', td_id = Some ''tttttttttttttttttttt'',
      td_expiration = Some 1567283300000\<rparr>"

definition ex_world :: world where
  "ex_world =
     \<lparr>w_users = [''joe@pizza.io'' \<mapsto> ex_user],
      w_tokens = [''tttttttttttttttttttt'' \<mapsto> ex_token],
      w_orders = Map.empty, w_items = ex_items, w_tick = 0, w_draws = 0, w_IDs = [],
      w_charges = [], w_mails = []\<rparr>"

text \<open>An order for two units of the first item and one of the second, not yet completed.\<close>

definition ex_order :: order where
  "ex_order =
     new_order 0
       \<lparr>od_id = Some ''oooooooooooooooooooo'', od_email = Some ''joe@pizza.io'',
        od_createdOn = Some 1567283281000, od_completedOn = None, od_paymentInfo = None,
        od_total = None, od_items = Some [(''itemAAAAAA'', 2), (''itemBBBBBB'', 1)]\<rparr>"

text \<open>The same state with the order stored under its id.\<close>

definition ex_world_stored :: world where
  "ex_world_stored = ex_world\<lparr>w_orders := [''oooooooooooooooooooo'' \<mapsto> order_toJSON ex_order]\<rparr>"

text \<open>An order without items that was completed a second after its creation.\<close>

definition ex_order_done :: order where
  "ex_order_done =
     new_order 0
       \<lparr>od_id = Some ''dddddddddddddddddddd'', od_email = Some ''joe@pizza.io'',
        od_createdOn = Some 1567283281000, od_completedOn = Some 1567283282000,
        od_paymentInfo = Some ex_payment, od_total = Some 25, od_items = Some []\<rparr>"

text \<open>An order for an item the catalog does not hold, not yet completed.\<close>

definition ex_order_gone :: order where
  "ex_order_gone =
     new_order 0
       \<lparr>od_id = Some ''gggggggggggggggggggg'', od_email = Some ''joe@pizza.io'',
        od_createdOn = Some 1567283281000, od_completedOn = None, od_paymentInfo = None,
        od_total = None, od_items = Some [(''itemZZZZZZ'', 3)]\<rparr>"

text \<open>
  Two calls of \<open>complete\<close> on the same order object, the second in the state the first
  left.
\<close>

definition ex_first_call :: "response outcome \<times> order \<times> world" where
  "ex_first_call = Order_complete ex_env_mail_refused None ex_order ex_world_stored"

definition ex_second_call :: "response outcome \<times> order \<times> world" where
  "ex_second_call =
     Order_complete ex_env_mail_refused None (fst (snd ex_first_call)) (snd (snd ex_first_call))"

text \<open>The state after the order was paid and stored as completed.\<close>

definition ex_world_paid :: world where
  "ex_world_paid =
     ex_world
       \<lparr>w_orders := [''oooooooooooooooooooo'' \<mapsto>
          \<lparr>od_id = Some ''oooooooooooooooooooo'', od_email = Some ''joe@pizza.io'',
           od_createdOn = Some 1567283281000, od_completedOn = Some 1567283281920,
           od_paymentInfo = Some ex_payment, od_total = Some 25,
           od_items = Some [(''itemAAAAAA'', 2), (''itemBBBBBB'', 1)]\<rparr>]\<rparr>"

text \<open>The payload \<open>{id: "oooooooooooooooooooo", completedOn: 5}\<close> of a PUT on \<open>orders\<close>.\<close>

definition ex_forged_update :: order_data where
  "ex_forged_update = no_order_fields\<lparr>od_id := Some ''oooooooooooooooooooo'', od_completedOn := Some 5\<rparr>"

text \<open>The state with an empty \<open>items\<close> directory.\<close>

definition ex_world_no_items :: world where
  "ex_world_no_items = ex_world\<lparr>w_items := []\<rparr>"

text \<open>
  A clock whose second reading is \<open>36^7\<close> milliseconds after the first
  (\<open>k0000000\<close> and \<open>l0000000\<close> in base 36), with a random generator that repeats itself.
\<close>

definition ex_env_recurring :: env where
  "ex_env_recurring = ex_env\<lparr>e_clock := (\<lambda>n. 1567283281920 + 78364164096 * int n)\<rparr>"

text \<open>
  The environments of the instances of \<open>checkout\<close> agree with \<open>ex_env\<close> on the clock, the
  random digits and the gateway, and no file system operation fails except, possibly, the
  update of the user's document.
\<close>

definition ex_like :: "env \<Rightarrow> bool" where
  "ex_like e =
     (e_clock e = e_clock ex_env \<and> e_random e = e_random ex_env \<and>
      e_gateway e = e_gateway ex_env \<and>
      (\<forall>op. op \<noteq> FsUpdate Users ''joe@pizza.io'' \<longrightarrow> \<not> e_fault e op))"

text \<open>The mail API refuses and the user's document cannot be written.\<close>

definition ex_env_user_locked :: env where
  "ex_env_user_locked =
     ex_env\<lparr>e_mailer := (\<lambda>n i. AjaxErr StatusErr),
            e_fault := (\<lambda>op. op = FsUpdate Users ''joe@pizza.io'')\<rparr>"

text \<open>The states and the order of the instances of \<open>checkout\<close>, step by step.\<close>

definition ex_world_checked :: world where
  "ex_world_checked =
     ex_world\<lparr>w_tick := 6,
       w_tokens := [''tttttttttttttttttttt'' \<mapsto> ex_token\<lparr>td_expiration := Some 1567286881925\<rparr>]\<rparr>"

definition ex_new_order_data :: order_data where
  "ex_new_order_data =
     \<lparr>od_id = Some ''000000600000000000ab'', od_email = Some ''joe@pizza.io'',
      od_createdOn = Some 1567283281927, od_completedOn = None, od_paymentInfo = None,
      od_total = Some 0, od_items = Some [(''itemXXXXXX'', 2)]\<rparr>"

definition ex_world_ordered :: world where
  "ex_world_ordered =
     ex_world_checked
       \<lparr>w_tick := 8, w_draws := 1, w_IDs := [''k000000600000000000ab''],
        w_orders := [''000000600000000000ab'' \<mapsto> ex_new_order_data]\<rparr>"

definition ex_paid_order_data :: order_data where
  "ex_paid_order_data =
     ex_new_order_data
       \<lparr>od_completedOn := Some 1567283281928, od_paymentInfo := Some ex_payment,
        od_total := Some 15\<rparr>"

definition ex_world_completed :: world where
  "ex_world_completed =
     ex_world_ordered
       \<lparr>w_tick := 9,
        w_orders := [''000000600000000000ab'' \<mapsto> ex_paid_order_data],
        w_charges := [\<lparr>ch_amount = 1500, ch_currency = ''USD'', ch_source = ''tok_visa''\<rparr>],
        w_mails := [\<lparr>inv_to = Some ''joe@pizza.io'', inv_order = Some ''000000600000000000ab'',
                     inv_lines = [(''itemXXXXXX'', map_of ex_items ''itemXXXXXX'', 2)],
                     inv_total = 15\<rparr>]\<rparr>"

definition ex_new_order :: order where
  "ex_new_order =
     \<lparr>o_id = Some ''000000600000000000ab'', o_email = Some ''joe@pizza.io'',
      o_createdOn = 1567283281927, o_completedOn = None, o_paymentInfo = None, o_total = 0,
      o_items = Some [(''itemXXXXXX'', 2)]\<rparr>"

definition ex_paid_order :: order where
  "ex_paid_order =
     ex_new_order\<lparr>o_completedOn := Some 1567283281928, o_paymentInfo := Some ex_payment,
                  o_total := 15\<rparr>"

text \<open>The user object of step 5.\<close>

definition ex_user_object :: user where
  "ex_user_object =
     \<lparr>u_email = Some ''joe@pizza.io'', u_password = None, u_firstName = ''Joe'',
      u_lastName = ''Doe'', u_streetAddress = ''1 Main St'', u_cart = [(''itemXXXXXX'', 2)],
      u_orders = []\<rparr>"

text \<open>The state after \<open>User.put\<close> failed to write the user's document.\<close>

definition ex_world_user_locked :: world where
  "ex_world_user_locked =
     ex_world_completed
       \<lparr>w_tick := 12,
        w_tokens := [''tttttttttttttttttttt'' \<mapsto> ex_token\<lparr>td_expiration := Some 1567286881931\<rparr>]\<rparr>"

text \<open>The state in which the token has expired, 920 milliseconds before the first reading.\<close>

definition ex_world_expired :: world where
  "ex_world_expired =
     ex_world\<lparr>w_tokens :=
       [''tttttttttttttttttttt'' \<mapsto> ex_token\<lparr>td_expiration := Some 1567283281000\<rparr>]\<rparr>"

section \<open>Trimming twice\<close>

lemma dropWhile_rev_dropWhile:
  "dropWhile P (rev (dropWhile P (rev (dropWhile P s)))) = rev (dropWhile P (rev (dropWhile P s)))"
  by (metis (no_types, lifting) ext dropWhile_eq_self_iff dropWhile_last
    hd_dropWhile hd_rev last_in_set last_rev rev.simps(1))

lemma trim_trim: "trim (trim s) = trim s"
  by (simp add: trim_def dropWhile_rev_dropWhile)

lemma validators_trim:
  "isValidTokenId (trim s) = isValidTokenId s"
  "isValidOrderId (trim s) = isValidOrderId s"
  "isValidItemId (trim s) = isValidItemId s"
  "isValidEmail (trim s) = isValidEmail s"
  by (simp_all add: isValidTokenId_def isValidOrderId_def isValidItemId_def isValidEmail_def
        trim_trim)

lemma valid_trim_again:
  "valid_trim isValidTokenId v = Some t \<Longrightarrow> valid_trim isValidTokenId (Some t) = Some t"
  "valid_trim isValidEmail v = Some t \<Longrightarrow> valid_trim isValidEmail (Some t) = Some t"
  by (auto simp: valid_trim_def validators_trim trim_trim split: option.splits if_splits)

section \<open>Properties of the Order class\<close>

lemma set_items_invalid_unchanged:
  "\<not> list_all isValidItemId (map fst m) \<Longrightarrow> set_items (Some m) x = x"
  by (simp add: set_items_def)

lemma set_items_keys_valid:
  assumes "list_all isValidItemId (item_keys x)"
  shows "list_all isValidItemId (item_keys (set_items v x))"
  using assms by (auto simp: set_items_def item_keys_def split: option.splits)

lemma item_keys_set_completedOn [simp]: "item_keys (set_completedOn v x) = item_keys x"
  by (simp add: set_completedOn_def item_keys_def split: option.splits)

lemma item_keys_set_total [simp]: "item_keys (set_total v x) = item_keys x"
  by (simp add: set_total_def item_keys_def split: option.splits)

lemma item_keys_set_id [simp]: "item_keys (set_id v x) = item_keys x"
  by (simp add: set_id_def item_keys_def split: option.splits)

lemma item_keys_set_email [simp]: "item_keys (set_email v x) = item_keys x"
  by (simp add: set_email_def item_keys_def split: option.splits)

lemma item_keys_set_paymentInfo [simp]: "item_keys (set_paymentInfo v x) = item_keys x"
  by (simp add: set_paymentInfo_def item_keys_def)

lemma item_keys_undefined [simp]: "o_items x = None \<Longrightarrow> item_keys x = []"
  by (simp add: item_keys_def)

lemma new_order_keys_valid: "list_all isValidItemId (item_keys (new_order now p))"
  unfolding new_order_def Let_def
  by (rule set_items_keys_valid) simp

text \<open>
  C10. Assigning to \<open>items\<close> a mapping in which some key fails the item-id format check
  leaves the order as it was: the whole assignment is discarded, no key of it is taken.
  Consequently every key of the items mapping of a constructed order, also after any
  later assignment to \<open>items\<close>, is a valid-format item id.
\<close>

theorem C10_items_setter_atomic:
  "(\<forall>k \<in> set (map fst m). \<not> isValidItemId k \<longrightarrow> set_items (Some m) x = x) \<and>
   list_all isValidItemId (item_keys (new_order now p)) \<and>
   list_all isValidItemId (item_keys (set_items v (new_order now p)))"
proof (intro conjI ballI impI)
  fix k assume "k \<in> set (map fst m)" and "\<not> isValidItemId k"
  then have "\<not> list_all isValidItemId (map fst m)"
    by (auto simp: list_all_iff)
  then show "set_items (Some m) x = x"
    by (rule set_items_invalid_unchanged)
next
  show "list_all isValidItemId (item_keys (new_order now p))"
    by (rule new_order_keys_valid)
next
  show "list_all isValidItemId (item_keys (set_items v (new_order now p)))"
    by (rule set_items_keys_valid) (rule new_order_keys_valid)
qed


theorem C10_items_setter_atomic_witness:
  "\<not> isValidItemId ''abc'' \<and>
   set_items (Some [(''itemAAAAAA'', 2), (''abc'', 1)])
     (new_order 5
        \<lparr>od_id = Some ''abcdefghijklmnopqrst'', od_email = Some ''a.b@c.io'',
         od_createdOn = Some 1000, od_completedOn = Some 2000, od_paymentInfo = None,
         od_total = Some 3, od_items = Some [(''itemBBBBBB'', 4)]\<rparr>) =
     new_order 5
        \<lparr>od_id = Some ''abcdefghijklmnopqrst'', od_email = Some ''a.b@c.io'',
         od_createdOn = Some 1000, od_completedOn = Some 2000, od_paymentInfo = None,
         od_total = Some 3, od_items = Some [(''itemBBBBBB'', 4)]\<rparr>"
  using C10_items_setter_atomic
    [of "[(''itemAAAAAA'', 2), (''abc'', 1)]"
        "new_order 5
           \<lparr>od_id = Some ''abcdefghijklmnopqrst'', od_email = Some ''a.b@c.io'',
            od_createdOn = Some 1000, od_completedOn = Some 2000, od_paymentInfo = None,
            od_total = Some 3, od_items = Some [(''itemBBBBBB'', 4)]\<rparr>"]
  by (simp add: isValidItemId_def trim_def js_space_def)

lemma set_completedOn_earlier_unchanged:
  "t < o_createdOn x \<Longrightarrow> set_completedOn (Some t) x = x"
  by (simp add: set_completedOn_def)

lemma completedOn_ok_set_completedOn:
  "completedOn_ok x \<Longrightarrow> completedOn_ok (set_completedOn v x)"
  by (simp add: completedOn_ok_def set_completedOn_def split: option.splits)

lemma completedOn_ok_set_others:
  "completedOn_ok (set_id i x) = completedOn_ok x"
  "completedOn_ok (set_email em x) = completedOn_ok x"
  "completedOn_ok (set_paymentInfo pinfo x) = completedOn_ok x"
  "completedOn_ok (set_total t x) = completedOn_ok x"
  "completedOn_ok (set_items m x) = completedOn_ok x"
  by (simp_all add: completedOn_ok_def set_id_def set_email_def set_paymentInfo_def
        set_total_def set_items_def split: option.splits)

lemma new_order_completedOn_ok: "completedOn_ok (new_order now p)"
proof -
  have "completedOn_ok
      \<lparr>o_id = None, o_email = None,
       o_createdOn = (case od_createdOn p of Some t \<Rightarrow> t | None \<Rightarrow> now),
       o_completedOn = None, o_paymentInfo = None, o_total = 0, o_items = None\<rparr>"
    by (simp add: completedOn_ok_def)
  then show ?thesis
    unfolding new_order_def Let_def completedOn_ok_set_others
    by (intro completedOn_ok_set_completedOn) (simp add: completedOn_ok_set_others)
qed

section \<open>The total of an order\<close>





section \<open>What each step leaves unchanged\<close>

lemma date_now_snd: "snd (date_now e w) = w\<lparr>w_tick := Suc (w_tick w)\<rparr>"
  by (simp add: date_now_def)

lemma date_now_fst: "fst (date_now e w) = e_clock e (w_tick w)"
  by (simp add: date_now_def)


lemma Order_put_frame:
  "w_charges (snd (Order_put e p w)) = w_charges w"
  "w_mails (snd (Order_put e p w)) = w_mails w"
  "w_users (snd (Order_put e p w)) = w_users w"
  "w_tokens (snd (Order_put e p w)) = w_tokens w"
  "w_items (snd (Order_put e p w)) = w_items w"
  by (auto simp: Order_put_def Let_def construct_order_def date_now_def
           split: option.splits loaded.splits prod.splits)

lemma sendInvoice_frame:
  "w_charges (snd (sendInvoice e x w)) = w_charges w"
  "w_orders (snd (sendInvoice e x w)) = w_orders w"
  "w_users (snd (sendInvoice e x w)) = w_users w"
  "w_tokens (snd (sendInvoice e x w)) = w_tokens w"
  "w_items (snd (sendInvoice e x w)) = w_items w"
  "w_tick (snd (sendInvoice e x w)) = w_tick w"
  by (auto simp: sendInvoice_def Let_def split: option.splits loaded.splits ajax_reply.splits)

lemma complete_record_order: "fst (snd (complete_record e x w)) = x"
  by (auto simp: complete_record_def split: prod.splits outcome.splits)

lemma complete_record_frame:
  "w_charges (snd (snd (complete_record e x w))) = w_charges w"
  "w_users (snd (snd (complete_record e x w))) = w_users w"
  "w_tokens (snd (snd (complete_record e x w))) = w_tokens w"
  "w_items (snd (snd (complete_record e x w))) = w_items w"
proof -
  obtain r1 w1 where p: "Order_put e (order_toJSON x) w = (r1, w1)"
    by (cases "Order_put e (order_toJSON x) w")
  obtain r2 w2 where i: "sendInvoice e x w1 = (r2, w2)"
    by (cases "sendInvoice e x w1")
  have w1: "w_charges w1 = w_charges w" "w_users w1 = w_users w" "w_tokens w1 = w_tokens w"
    "w_items w1 = w_items w"
    using Order_put_frame [of e "order_toJSON x" w] by (simp_all add: p)
  have w2: "w_charges w2 = w_charges w1" "w_users w2 = w_users w1" "w_tokens w2 = w_tokens w1"
    "w_items w2 = w_items w1"
    using sendInvoice_frame [of e x w1] by (simp_all add: i)
  show "w_charges (snd (snd (complete_record e x w))) = w_charges w"
    "w_users (snd (snd (complete_record e x w))) = w_users w"
    "w_tokens (snd (snd (complete_record e x w))) = w_tokens w"
    "w_items (snd (snd (complete_record e x w))) = w_items w"
    using w1 w2 by (auto simp: complete_record_def p i split: outcome.splits)
qed

lemma o_total_set_completedOn [simp]: "o_total (set_completedOn v x) = o_total x"
  by (simp add: set_completedOn_def split: option.splits)

lemma o_total_set_paymentInfo [simp]: "o_total (set_paymentInfo v x) = o_total x"
  by (simp add: set_paymentInfo_def)


lemma complete_pay_charges:
  "0 < o_total x \<Longrightarrow>
   w_charges (snd (snd (complete_pay e tok x w))) =
     w_charges w @ [\<lparr>ch_amount = o_total x * 100, ch_currency = ''USD'',
                     ch_source = source_of tok\<rparr>]"
  by (auto simp: complete_pay_def makePayment_def Let_def date_now_def complete_record_frame
           split: prod.splits pay_result.splits option.splits ajax_reply.splits if_splits)










lemma createUniqueId_frame:
  "createUniqueId e w = Some (i, w1) \<Longrightarrow>
   w_charges w1 = w_charges w \<and> w_mails w1 = w_mails w \<and> w_users w1 = w_users w \<and>
   w_tokens w1 = w_tokens w \<and> w_items w1 = w_items w \<and> w_orders w1 = w_orders w"
  by (auto simp: createUniqueId_def createRandomString_def Let_def split: option.splits)




section \<open>The concrete instances evaluated\<close>

lemmas ex_defs = ex_payment_def ex_env_def ex_env_mail_refused_def ex_items_def ex_user_def
  ex_token_def ex_world_def ex_order_def

lemmas str_defs = valid_trim_def isValidItemId_def isValidOrderId_def isValidTokenId_def
  trim_def js_space_def isValidEmail_def email_char_def is_alpha_def is_digit_def
  email_domain_def email_domain_n_def

lemma ex_order_eq:
  "ex_order =
     \<lparr>o_id = Some ''oooooooooooooooooooo'', o_email = Some ''joe@pizza.io'',
      o_createdOn = 1567283281000, o_completedOn = None, o_paymentInfo = None, o_total = 0,
      o_items = Some [(''itemAAAAAA'', 2), (''itemBBBBBB'', 1)]\<rparr>"
  by (simp add: ex_order_def new_order_def set_id_def set_email_def set_completedOn_def
        set_paymentInfo_def set_total_def set_items_def str_defs Let_def)

lemma ex_hashmap:
  "Item_hashmap ex_env ex_world =
     LoadOk [(''itemAAAAAA'', \<lparr>it_id = Some ''itemAAAAAA'', it_name = Some ''Margherita'',
                               it_unitPrice = Some 10\<rparr>),
             (''itemBBBBBB'', \<lparr>it_id = Some ''itemBBBBBB'', it_name = Some ''Cola'',
                               it_unitPrice = Some 5\<rparr>),
             (''itemXXXXXX'', \<lparr>it_id = Some ''itemXXXXXX'', it_name = Some ''Calzone'',
                               it_unitPrice = Some (15 / 2)\<rparr>)]"
  by (simp add: Item_hashmap_def ds_list_items_def ds_read_item_def ds_read_def item_toJSON_def
        ex_env_def ex_world_def ex_items_def str_defs)

lemma ex_order_done_eq:
  "ex_order_done =
     \<lparr>o_id = Some ''dddddddddddddddddddd'', o_email = Some ''joe@pizza.io'',
      o_createdOn = 1567283281000, o_completedOn = Some 1567283282000,
      o_paymentInfo = Some ex_payment, o_total = 25, o_items = Some []\<rparr>"
  by (simp add: ex_order_done_def new_order_def set_id_def set_email_def set_completedOn_def
        set_paymentInfo_def set_total_def set_items_def str_defs Let_def)

lemma ex_list:
  "Item_list ex_env_mail_refused ex_world_stored = LoadOk (map snd ex_items)"
  by (simp add: Item_list_def ds_list_items_def ds_read_item_def ds_read_def item_toJSON_def
        ex_env_def ex_env_mail_refused_def ex_world_stored_def ex_world_def ex_items_def str_defs)

lemma ex_hashmap_stored:
  "Item_hashmap ex_env_mail_refused ex_world_stored = LoadOk ex_items"
  by (simp add: Item_hashmap_def ds_list_items_def ds_read_item_def ds_read_def item_toJSON_def
        ex_env_def ex_env_mail_refused_def ex_world_stored_def ex_world_def ex_items_def str_defs)


lemmas run_defs = Order_complete_def complete_pay_def makePayment_def complete_record_def
  Order_put_def sendInvoice_def invoice_response_def construct_order_def put_fields_def
  filter_cart_def date_now_def ds_read_def ds_update_def ds_create_def ds_delete_def
  order_total_def add_item_def catalog_get_def unitPrice_def positive_def charge_ok_def
  source_of_def truthy_int_def truthy_rat_def completed_at_def order_toJSON_def invoice_of_def
  new_order_def set_id_def set_email_def set_completedOn_def set_paymentInfo_def set_total_def
  set_items_def Let_def

lemma ex_first_call_run:
  "Order_complete ex_env_mail_refused None ex_order ex_world_stored =
     (Done (Some 200,
        BReceipt
          (BOrder
            \<lparr>od_id = Some ''oooooooooooooooooooo'', od_email = Some ''joe@pizza.io'',
             od_createdOn = Some 1567283281000, od_completedOn = Some 1567283281920,
             od_paymentInfo = Some ex_payment, od_total = Some 25,
             od_items = Some [(''itemAAAAAA'', 2), (''itemBBBBBB'', 1)]\<rparr>)
          (Some ''joe@pizza.io'')),
      \<lparr>o_id = Some ''oooooooooooooooooooo'', o_email = Some ''joe@pizza.io'',
       o_createdOn = 1567283281000, o_completedOn = Some 1567283281920,
       o_paymentInfo = Some ex_payment, o_total = 25,
       o_items = Some [(''itemAAAAAA'', 2), (''itemBBBBBB'', 1)]\<rparr>,
      ex_world_stored
        \<lparr>w_tick := 1,
         w_orders := [''oooooooooooooooooooo'' \<mapsto>
            \<lparr>od_id = Some ''oooooooooooooooooooo'', od_email = Some ''joe@pizza.io'',
             od_createdOn = Some 1567283281000, od_completedOn = Some 1567283281920,
             od_paymentInfo = Some ex_payment, od_total = Some 25,
             od_items = Some [(''itemAAAAAA'', 2), (''itemBBBBBB'', 1)]\<rparr>],
         w_charges := [\<lparr>ch_amount = 2500, ch_currency = ''USD'', ch_source = ''tok_visa''\<rparr>],
         w_mails := [\<lparr>inv_to = Some ''joe@pizza.io'', inv_order = Some ''oooooooooooooooooooo'',
            inv_lines = [(''itemAAAAAA'', Some (snd (ex_items ! 0)), 2), (''itemBBBBBB'', Some (snd (ex_items ! 1)), 1)],
            inv_total = 25\<rparr>]\<rparr>)"
  by (simp add: run_defs ex_defs ex_world_stored_def Item_hashmap_def Item_list_def
        ds_list_items_def ds_read_item_def item_toJSON_def str_defs)

lemma ex_first_call_eq:
  "ex_first_call =
     (Done (Some 200,
        BReceipt
          (BOrder
            \<lparr>od_id = Some ''oooooooooooooooooooo'', od_email = Some ''joe@pizza.io'',
             od_createdOn = Some 1567283281000, od_completedOn = Some 1567283281920,
             od_paymentInfo = Some ex_payment, od_total = Some 25,
             od_items = Some [(''itemAAAAAA'', 2), (''itemBBBBBB'', 1)]\<rparr>)
          (Some ''joe@pizza.io'')),
      \<lparr>o_id = Some ''oooooooooooooooooooo'', o_email = Some ''joe@pizza.io'',
       o_createdOn = 1567283281000, o_completedOn = Some 1567283281920,
       o_paymentInfo = Some ex_payment, o_total = 25,
       o_items = Some [(''itemAAAAAA'', 2), (''itemBBBBBB'', 1)]\<rparr>,
      ex_world_stored
        \<lparr>w_tick := 1,
         w_orders := [''oooooooooooooooooooo'' \<mapsto>
            \<lparr>od_id = Some ''oooooooooooooooooooo'', od_email = Some ''joe@pizza.io'',
             od_createdOn = Some 1567283281000, od_completedOn = Some 1567283281920,
             od_paymentInfo = Some ex_payment, od_total = Some 25,
             od_items = Some [(''itemAAAAAA'', 2), (''itemBBBBBB'', 1)]\<rparr>],
         w_charges := [\<lparr>ch_amount = 2500, ch_currency = ''USD'', ch_source = ''tok_visa''\<rparr>],
         w_mails := [\<lparr>inv_to = Some ''joe@pizza.io'', inv_order = Some ''oooooooooooooooooooo'',
            inv_lines = [(''itemAAAAAA'', Some (snd (ex_items ! 0)), 2), (''itemBBBBBB'', Some (snd (ex_items ! 1)), 1)],
            inv_total = 25\<rparr>]\<rparr>)"
  unfolding ex_first_call_def by (rule ex_first_call_run)

lemma ex_second_call_eq:
  "ex_second_call = (Done (Some 200, BCompleted 1567283281920), snd ex_first_call)"
  by (simp add: ex_second_call_def ex_first_call_eq Order_complete_def completed_at_def)

lemma ex_order_gone_eq:
  "ex_order_gone =
     \<lparr>o_id = Some ''gggggggggggggggggggg'', o_email = Some ''joe@pizza.io'',
      o_createdOn = 1567283281000, o_completedOn = None, o_paymentInfo = None, o_total = 0,
      o_items = Some [(''itemZZZZZZ'', 3)]\<rparr>"
  by (simp add: ex_order_gone_def new_order_def set_id_def set_email_def set_completedOn_def
        set_paymentInfo_def set_total_def set_items_def str_defs Let_def)

lemma ex_hashmap_items: "Item_hashmap ex_env ex_world = LoadOk ex_items"
  by (simp add: ex_hashmap ex_items_def)

lemmas eval_defs = run_defs ex_defs Item_hashmap_def Item_list_def ds_list_items_def
  ds_read_item_def item_toJSON_def str_defs

lemma ex_env_fields:
  "e_clock ex_env n = 1567283281920 + int n"
  "e_random ex_env n = ''00000000000ab''"
  "e_fault ex_env op = False"
  "e_gateway ex_env k c = AjaxOk (Some ex_payment)"
  "e_mailer ex_env k i = AjaxOk ''Queued. Thank you.''"
  "e_hash ex_env s = s"
  by (simp_all add: ex_env_def)

lemma ex_world_fields:
  "w_users ex_world = [''joe@pizza.io'' \<mapsto> ex_user]"
  "w_tokens ex_world = [''tttttttttttttttttttt'' \<mapsto> ex_token]"
  "w_orders ex_world = Map.empty"
  "w_items ex_world = ex_items"
  "w_tick ex_world = 0" "w_draws ex_world = 0" "w_IDs ex_world = []"
  "w_charges ex_world = []" "w_mails ex_world = []"
  by (simp_all add: ex_world_def)

lemma ex_catalog_list:
  "w_items w = ex_items \<Longrightarrow> \<forall>op. \<not> e_fault e op \<Longrightarrow>
   Item_list e w = LoadOk (map snd ex_items)"
  by (simp add: Item_list_def ds_list_items_def ds_read_item_def ds_read_def item_toJSON_def
        ex_items_def str_defs)

lemma ex_catalog_hashmap:
  "w_items w = ex_items \<Longrightarrow> \<forall>op. \<not> e_fault e op \<Longrightarrow>
   Item_hashmap e w = LoadOk ex_items"
  by (simp add: Item_hashmap_def ds_list_items_def ds_read_item_def ds_read_def item_toJSON_def
        ex_items_def str_defs)

lemma ex_forged_put:
  "Order_put ex_env ex_forged_update ex_world_paid =
     (Done (Some 200, BOrder
       \<lparr>od_id = Some ''oooooooooooooooooooo'', od_email = Some ''joe@pizza.io'',
        od_createdOn = Some 1567283281000, od_completedOn = None,
        od_paymentInfo = Some ex_payment, od_total = Some 25,
        od_items = Some [(''itemAAAAAA'', 2), (''itemBBBBBB'', 1)]\<rparr>),
      ex_world_paid\<lparr>w_orders := [''oooooooooooooooooooo'' \<mapsto>
       \<lparr>od_id = Some ''oooooooooooooooooooo'', od_email = Some ''joe@pizza.io'',
        od_createdOn = Some 1567283281000, od_completedOn = None,
        od_paymentInfo = Some ex_payment, od_total = Some 25,
        od_items = Some [(''itemAAAAAA'', 2), (''itemBBBBBB'', 1)]\<rparr>]\<rparr>)"
  by (simp add: Order_put_def ex_forged_update_def no_order_fields_def ex_catalog_list
        ex_env_fields ex_world_paid_def ex_world_fields isValidOrderId_def trim_def js_space_def
        valid_trim_def filter_cart_def truthy_int_def ds_read_def ds_update_def
        construct_order_def put_fields_def truthy_rat_def new_order_def set_id_def set_email_def
        set_completedOn_def set_paymentInfo_def set_total_def set_items_def order_toJSON_def
        isValidEmail_def email_char_def is_alpha_def is_digit_def email_domain_def
        email_domain_n_def isValidItemId_def Let_def)

lemma ex_env_recurring_fields:
  "e_clock ex_env_recurring n = 1567283281920 + 78364164096 * int n"
  "e_random ex_env_recurring n = ''00000000000ab''"
  by (simp_all add: ex_env_recurring_def ex_env_def)

lemma base36_first: "to_base36 1567283281920 = ''k0000000''"
  by (simp add: to_base36_def nat_to_base36.simps digit36_def)

lemma base36_second: "to_base36 1645647446016 = ''l0000000''"
  by (simp add: to_base36_def nat_to_base36.simps digit36_def)

lemma ex_first_id:
  "createUniqueId ex_env_recurring ex_world =
     Some (''000000000000000000ab'',
           ex_world\<lparr>w_tick := 1, w_draws := 1, w_IDs := [''k000000000000000000ab'']\<rparr>)"
  apply (simp add: createUniqueId_def createRandomString_def ex_world_fields)
  apply (subst fresh_sId.simps)
  apply (simp add: ex_env_recurring_fields base36_first ex_world_fields)
  done

lemma ex_second_id:
  "createUniqueId ex_env_recurring
     (ex_world\<lparr>w_tick := 1, w_draws := 1, w_IDs := [''k000000000000000000ab'']\<rparr>) =
     Some (''000000000000000000ab'',
           ex_world\<lparr>w_tick := 2, w_draws := 2,
                    w_IDs := [''l000000000000000000ab'', ''k000000000000000000ab'']\<rparr>)"
  apply (simp add: createUniqueId_def createRandomString_def)
  apply (subst fresh_sId.simps)
  apply (simp add: ex_env_recurring_fields base36_second)
  done

lemma ex_like_fields:
  assumes "ex_like e"
  shows "e_clock e n = 1567283281920 + int n"
    and "e_random e n = ''00000000000ab''"
    and "e_gateway e k c = AjaxOk (Some ex_payment)"
    and "op \<noteq> FsUpdate Users ''joe@pizza.io'' \<Longrightarrow> e_fault e op = False"
  using assms by (simp_all add: ex_like_def ex_env_def)

lemma ex_like_no_fault: "ex_like e \<Longrightarrow> \<forall>op. \<not> e_fault e op \<or> op = FsUpdate Users ''joe@pizza.io''"
  by (auto simp: ex_like_def)

lemma ex_like_list:
  "ex_like e \<Longrightarrow> w_items w = ex_items \<Longrightarrow> Item_list e w = LoadOk (map snd ex_items)"
  by (simp add: Item_list_def ds_list_items_def ds_read_item_def ds_read_def item_toJSON_def
        ex_items_def str_defs ex_like_fields)

lemma ex_like_hashmap:
  "ex_like e \<Longrightarrow> w_items w = ex_items \<Longrightarrow> Item_hashmap e w = LoadOk ex_items"
  by (simp add: Item_hashmap_def ds_list_items_def ds_read_item_def ds_read_def item_toJSON_def
        ex_items_def str_defs ex_like_fields)

lemma ex_stage_token:
  "ex_like e \<Longrightarrow>
   token_isValid e
     \<lparr>tk_email = Some ''joe@pizza.io'', tk_id = Some ''tttttttttttttttttttt'',
      tk_expiration = None\<rparr> ex_world =
     (True, ex_world\<lparr>w_tick := Suc 0\<rparr>)"
  by (simp add: token_isValid_def key_of_def ds_read_def ex_like_fields ex_world_fields
        ex_token_def date_now_def expiration_num_def)

lemma ex_stage_get:
  "ex_like e \<Longrightarrow>
   User_get e (Some ''joe@pizza.io'') (Some ''tttttttttttttttttttt'')
     (ex_world\<lparr>w_tick := Suc 0\<rparr>) =
     ((Some 200, BUser (ex_user\<lparr>ud_password := None\<rparr>)),
      ex_world\<lparr>w_tick := 4,
        w_tokens := [''tttttttttttttttttttt'' \<mapsto> ex_token\<lparr>td_expiration := Some 1567286881923\<rparr>]\<rparr>)"
  by (simp add: User_get_def str_defs new_token_def token_isValid_def key_of_def ds_read_def
        ds_update_def ex_like_fields ex_world_fields ex_token_def date_now_def expiration_num_def
        token_extend_def Token_put_extend_def token_toJSON_def new_user_def user_toJSON_def
        ex_user_def isValidPassword_def)

lemma ex_stage_extend:
  "ex_like e \<Longrightarrow>
   token_extend e
     \<lparr>tk_email = Some ''joe@pizza.io'', tk_id = Some ''tttttttttttttttttttt'',
      tk_expiration = None\<rparr>
     (ex_world\<lparr>w_tick := 4,
        w_tokens := [''tttttttttttttttttttt'' \<mapsto> ex_token\<lparr>td_expiration := Some 1567286881923\<rparr>]\<rparr>) =
     ex_world\<lparr>w_tick := 6,
        w_tokens := [''tttttttttttttttttttt'' \<mapsto> ex_token\<lparr>td_expiration := Some 1567286881925\<rparr>]\<rparr>"
  by (simp add: str_defs new_token_def ds_read_def ds_update_def ex_like_fields ex_token_def
        date_now_def expiration_num_def token_extend_def Token_put_extend_def token_toJSON_def)

lemma base36_sixth: "to_base36 1567283281926 = ''k0000006''"
  by (simp add: to_base36_def nat_to_base36.simps digit36_def)

lemma ex_stage_id:
  "ex_like e \<Longrightarrow>
   createUniqueId e ex_world_checked =
     Some (''000000600000000000ab'',
           ex_world_checked\<lparr>w_tick := 7, w_draws := 1, w_IDs := [''k000000600000000000ab'']\<rparr>)"
  apply (simp add: createUniqueId_def createRandomString_def)
  apply (subst fresh_sId.simps)
  apply (simp add: base36_sixth ex_like_fields ex_world_checked_def ex_world_fields)
  done

lemma ex_world_checked_fields:
  "w_items ex_world_checked = ex_items" "w_orders ex_world_checked = Map.empty"
  "w_charges ex_world_checked = []" "w_mails ex_world_checked = []"
  "w_users ex_world_checked = [''joe@pizza.io'' \<mapsto> ex_user]"
  by (simp_all add: ex_world_checked_def ex_world_fields)

lemma ex_stage_post:
  "ex_like e \<Longrightarrow>
   Order_post e (Some ''joe@pizza.io'') (Some [(''itemXXXXXX'', 2)]) ex_world_checked =
     (Done (Some 200, BOrder ex_new_order_data), ex_world_ordered)"
  by (simp add: Order_post_def str_defs ex_like_list ex_world_checked_fields ex_stage_id
        filter_cart_def ex_items_def date_now_def ex_like_fields new_order_def set_id_def
        set_email_def set_completedOn_def set_paymentInfo_def set_total_def set_items_def
        order_toJSON_def ds_create_def key_of_def ex_new_order_data_def ex_world_ordered_def
        Let_def)

lemma ex_stage_construct:
  "construct_order e ex_new_order_data ex_world_ordered = (ex_new_order, ex_world_ordered)"
  by (simp add: construct_order_def ex_new_order_data_def ex_new_order_def new_order_def
        set_id_def set_email_def set_completedOn_def set_paymentInfo_def set_total_def
        set_items_def str_defs Let_def)

lemma ex_world_ordered_fields:
  "w_items ex_world_ordered = ex_items"
  "w_orders ex_world_ordered = [''000000600000000000ab'' \<mapsto> ex_new_order_data]"
  "w_charges ex_world_ordered = []" "w_mails ex_world_ordered = []" "w_tick ex_world_ordered = 8"
  by (simp_all add: ex_world_ordered_def ex_world_checked_fields)

lemma ex_stage_put:
  "ex_like e \<Longrightarrow> w_items w = ex_items \<Longrightarrow>
   w_orders w = [''000000600000000000ab'' \<mapsto> ex_new_order_data] \<Longrightarrow>
   Order_put e ex_paid_order_data w =
     (Done (Some 200, BOrder ex_paid_order_data),
      w\<lparr>w_orders := [''000000600000000000ab'' \<mapsto> ex_paid_order_data]\<rparr>)"
  by (simp add: Order_put_def ex_paid_order_data_def ex_new_order_data_def ex_like_list
        ex_like_fields str_defs filter_cart_def ex_items_def truthy_int_def truthy_rat_def
        ds_read_def ds_update_def construct_order_def put_fields_def new_order_def set_id_def
        set_email_def set_completedOn_def set_paymentInfo_def set_total_def set_items_def
        order_toJSON_def Let_def)

lemma ex_stage_invoice:
  "ex_like e \<Longrightarrow> w_items w = ex_items \<Longrightarrow> w_mails w = [] \<Longrightarrow>
   sendInvoice e ex_paid_order w =
     (Done (case e_mailer e 0
               \<lparr>inv_to = Some ''joe@pizza.io'', inv_order = Some ''000000600000000000ab'',
                inv_lines = [(''itemXXXXXX'', map_of ex_items ''itemXXXXXX'', 2)],
                inv_total = 15\<rparr> of AjaxErr err \<Rightarrow> CbErr err | AjaxOk res \<Rightarrow> CbOk res),
      w\<lparr>w_mails := [\<lparr>inv_to = Some ''joe@pizza.io'', inv_order = Some ''000000600000000000ab'',
                     inv_lines = [(''itemXXXXXX'', map_of ex_items ''itemXXXXXX'', 2)],
                     inv_total = 15\<rparr>]\<rparr>)"
  by (simp add: sendInvoice_def ex_like_hashmap ex_paid_order_def ex_new_order_def
        catalog_get_def invoice_of_def ex_items_def split: ajax_reply.splits)

lemma ex_paid_order_toJSON: "order_toJSON ex_paid_order = ex_paid_order_data"
  by (simp add: order_toJSON_def ex_paid_order_def ex_new_order_def ex_paid_order_data_def
        ex_new_order_data_def)

lemma ex_stage_complete:
  assumes "ex_like e"
  shows "Order_complete e (Some ''tok_visa'') ex_new_order ex_world_ordered =
     (Done (invoice_response (Some 200, BOrder ex_paid_order_data) ex_paid_order
        (case e_mailer e 0
               \<lparr>inv_to = Some ''joe@pizza.io'', inv_order = Some ''000000600000000000ab'',
                inv_lines = [(''itemXXXXXX'', map_of ex_items ''itemXXXXXX'', 2)],
                inv_total = 15\<rparr> of AjaxErr err \<Rightarrow> CbErr err | AjaxOk res \<Rightarrow> CbOk res)),
      ex_paid_order, ex_world_completed)"
proof -
  have total: "order_total (LoadOk ex_items) [(''itemXXXXXX'', 2)] = Some 15"
    by (simp add: order_total_def add_item_def catalog_get_def ex_items_def unitPrice_def)
  have pay: "Order_complete e (Some ''tok_visa'') ex_new_order ex_world_ordered =
      complete_record e ex_paid_order
        (ex_world_ordered\<lparr>w_charges := [\<lparr>ch_amount = 1500, ch_currency = ''USD'',
            ch_source = ''tok_visa''\<rparr>], w_tick := 9\<rparr>)"
    using assms
    by (simp add: Order_complete_def completed_at_def ex_new_order_def ex_like_hashmap
          ex_world_ordered_fields total positive_def complete_pay_def makePayment_def
          set_total_def source_of_def ex_like_fields charge_ok_def ex_payment_def date_now_def
          set_completedOn_def set_paymentInfo_def ex_paid_order_def)
  show ?thesis
    using assms
    by (simp add: pay complete_record_def ex_paid_order_toJSON ex_stage_put ex_stage_invoice
          ex_world_ordered_fields ex_world_completed_def)
qed

lemma ex_locked_like: "ex_like ex_env_user_locked"
  by (simp add: ex_like_def ex_env_user_locked_def ex_env_def)

lemma ex_locked_fields:
  "e_mailer ex_env_user_locked k i = AjaxErr StatusErr"
  "e_fault ex_env_user_locked (FsUpdate Users ''joe@pizza.io'') = True"
  by (simp_all add: ex_env_user_locked_def)

lemma ex_world_completed_fields:
  "w_users ex_world_completed = [''joe@pizza.io'' \<mapsto> ex_user]"
  "w_tokens ex_world_completed =
     [''tttttttttttttttttttt'' \<mapsto> ex_token\<lparr>td_expiration := Some 1567286881925\<rparr>]"
  "w_tick ex_world_completed = 9"
  "w_orders ex_world_completed = [''000000600000000000ab'' \<mapsto> ex_paid_order_data]"
  "w_charges ex_world_completed =
     [\<lparr>ch_amount = 1500, ch_currency = ''USD'', ch_source = ''tok_visa''\<rparr>]"
  by (simp_all add: ex_world_completed_def ex_world_ordered_def ex_world_checked_def
        ex_world_fields)

lemma ex_stage_user_put:
  "User_put ex_env_user_locked
     \<lparr>ud_email = Some ''joe@pizza.io'', ud_password = None, ud_firstName = None,
      ud_lastName = None, ud_streetAddress = None, ud_cart = Some [],
      ud_orders = Some [Some ''000000600000000000ab'']\<rparr>
     (Some ''tttttttttttttttttttt'') ex_world_completed =
     ((Some 500, BErr ''Could not update the specified user.''), ex_world_user_locked)"
  by (simp add: User_put_def str_defs nonempty_trim_def new_token_def token_isValid_def
        key_of_def ds_read_def ds_update_def ex_like_fields [OF ex_locked_like] ex_locked_fields
        ex_world_completed_fields ex_token_def date_now_def expiration_num_def token_extend_def
        Token_put_extend_def token_toJSON_def new_user_def user_toJSON_def user_put_fields_def
        ex_user_def isValidPassword_def ex_world_user_locked_def Let_def)

lemma ex_env_like: "ex_like ex_env"
  by (simp add: ex_like_def ex_env_def)

lemma ex_checkout_to_order:
  "ex_like e \<Longrightarrow>
   checkout e (Some ''joe@pizza.io'') stripe (Some ''tttttttttttttttttttt'') ex_world =
     checkout_order e stripe (Some ''tttttttttttttttttttt'') ex_user_object ex_world_checked"
  by (simp add: checkout_def str_defs new_token_def ex_stage_token ex_stage_get ex_stage_extend
        as_user_def new_user_def ex_user_def ex_user_object_def ex_world_checked_def
        isValidPassword_def)

lemma ex_paid_order_fields:
  "o_email ex_paid_order = Some ''joe@pizza.io''"
  "o_id ex_paid_order = Some ''000000600000000000ab''"
  by (simp_all add: ex_paid_order_def ex_new_order_def)

lemma ex_user_object_fields:
  "u_email ex_user_object = Some ''joe@pizza.io''"
  "u_cart ex_user_object = [(''itemXXXXXX'', 2)]"
  "u_orders ex_user_object = []"
  by (simp_all add: ex_user_object_def)

lemma ex_checkout_order_mailed:
  "checkout_order ex_env None (Some ''tttttttttttttttttttt'') ex_user_object ex_world_checked =
     (Done (None, BInvoice ''Queued. Thank you.''), ex_world_completed)"
  by (simp add: checkout_order_def ex_user_object_fields ex_stage_post [OF ex_env_like]
        as_order_def ex_stage_construct source_of_def ex_stage_complete [OF ex_env_like]
        ex_env_fields invoice_response_def)

lemma ex_checkout_user_locked:
  "checkout ex_env_user_locked (Some ''joe@pizza.io'') None (Some ''tttttttttttttttttttt'')
     ex_world =
     (Done (Some 500, BErr ''Could not update the specified user.''), ex_world_user_locked)"
  by (simp add: ex_checkout_to_order [OF ex_locked_like] checkout_order_def
        ex_user_object_fields ex_stage_post [OF ex_locked_like] as_order_def ex_stage_construct
        source_of_def ex_stage_complete [OF ex_locked_like] ex_locked_fields
        invoice_response_def checkout_record_user_def ex_paid_order_fields ex_stage_user_put)

lemma ex_world_expired_fields:
  "w_tokens ex_world_expired =
     [''tttttttttttttttttttt'' \<mapsto> ex_token\<lparr>td_expiration := Some 1567283281000\<rparr>]"
  "w_tick ex_world_expired = 0" "w_orders ex_world_expired = Map.empty"
  "w_charges ex_world_expired = []"
  by (simp_all add: ex_world_expired_def ex_world_fields)

section \<open>Completion of an order\<close>



lemma completed_at_set:
  "o_createdOn x \<le> t \<Longrightarrow> t \<noteq> 0 \<Longrightarrow>
   completed_at (set_completedOn (Some t) (set_paymentInfo v (set_total u x))) = Some t"
  by (simp add: completed_at_def set_completedOn_def set_paymentInfo_def set_total_def
           split: option.splits)

lemma complete_pay_order:
  assumes "0 < o_total x"
    and "e_gateway e (length (w_charges w))
           \<lparr>ch_amount = o_total x * 100, ch_currency = ''USD'', ch_source = source_of tok\<rparr> =
         AjaxOk (Some p)"
    and "charge_ok p"
  shows "fst (snd (complete_pay e tok x w)) =
           set_completedOn (Some (e_clock e (w_tick w))) (set_paymentInfo (Some p) x)"
  using assms
  by (simp add: complete_pay_def makePayment_def Let_def date_now_def complete_record_order)

text \<open>
  C1, with the guard as the code has it. An order whose \<open>completedOn\<close> is set to a
  non-zero time stamp not before \<open>createdOn\<close> is answered at once with status 200 and
  \<open>{Info: "Order already completed", completedOn}\<close>; the order and the state are as they
  were, so the payment gateway is not invoked, the total is not recomputed and no mail is
  sent. When a first call on an order that was not completed has charged the gateway and
  the charge was accepted, at a non-zero clock reading not before \<open>createdOn\<close>, a second call
  on the same order object is answered by that guard: the gateway is charged once, and the
  second answer is the note that the order is already completed.
\<close>

theorem C1_idempotence_guard:
  "(completed_at x = Some c \<longrightarrow>
      Order_complete e tok x w = (Done (Some 200, BCompleted c), x, w)) \<and>
   (completed_at y = None \<and>
    Order_complete e tok y w = (r, y', w') \<and>
    w_charges w' = w_charges w @ [ch] \<and>
    e_gateway e (length (w_charges w)) ch = AjaxOk (Some p) \<and> charge_ok p \<and>
    o_createdOn y \<le> e_clock e (w_tick w) \<and> e_clock e (w_tick w) \<noteq> 0 \<longrightarrow>
      Order_complete e tok' y' w' = (Done (Some 200, BCompleted (e_clock e (w_tick w))), y', w'))"
proof (intro conjI impI)
  assume "completed_at x = Some c"
  then show "Order_complete e tok x w = (Done (Some 200, BCompleted c), x, w)"
    by (simp add: Order_complete_def)
next
  assume a: "completed_at y = None \<and>
    Order_complete e tok y w = (r, y', w') \<and>
    w_charges w' = w_charges w @ [ch] \<and>
    e_gateway e (length (w_charges w)) ch = AjaxOk (Some p) \<and> charge_ok p \<and>
    o_createdOn y \<le> e_clock e (w_tick w) \<and> e_clock e (w_tick w) \<noteq> 0"
  let ?now = "e_clock e (w_tick w)"
  from a have run: "Order_complete e tok y w = (r, y', w')"
    and ch: "w_charges w' = w_charges w @ [ch]" by simp_all
  have changed: "w_charges (snd (snd (Order_complete e tok y w))) \<noteq> w_charges w"
    using run ch by simp
  obtain m T where m: "o_items y = Some m" and T: "order_total (Item_hashmap e w) m = Some T"
    and pos: "0 < T"
    and pay: "Order_complete e tok y w = complete_pay e tok (set_total (Some T) y) w"
    using a changed
    by (auto simp: Order_complete_def Let_def positive_def split: loaded.splits option.splits if_splits)
  let ?x1 = "set_total (Some T) y"
  have tot: "o_total ?x1 = T" using pos by (simp add: set_total_def)
  have "w_charges w' =
      w_charges w @ [\<lparr>ch_amount = T * 100, ch_currency = ''USD'', ch_source = source_of tok\<rparr>]"
    using complete_pay_charges [of ?x1 e tok w] pos tot run pay by simp
  then have che: "ch = \<lparr>ch_amount = o_total ?x1 * 100, ch_currency = ''USD'',
      ch_source = source_of tok\<rparr>"
    using ch tot by simp
  have "y' = set_completedOn (Some ?now) (set_paymentInfo (Some p) ?x1)"
    using complete_pay_order [of ?x1 e w tok p] a pos tot che run pay by simp
  moreover have "o_createdOn y \<le> ?now" "?now \<noteq> 0" using a by simp_all
  ultimately have "completed_at y' = Some ?now"
    by (simp add: completed_at_set)
  then show "Order_complete e tok' y' w' = (Done (Some 200, BCompleted ?now), y', w')"
    by (simp add: Order_complete_def)
qed

text \<open>
  The claim fails as stated: a first call that charges 2500 and answers with the receipt
  is followed by a second call on the same order that charges nothing and answers with the
  note \<open>Order already completed\<close>, which is not the receipt of the first call.
\<close>

theorem C1_second_answer_counterexample:
  "fst ex_first_call =
     Done (Some 200,
        BReceipt
          (BOrder
            \<lparr>od_id = Some ''oooooooooooooooooooo'', od_email = Some ''joe@pizza.io'',
             od_createdOn = Some 1567283281000, od_completedOn = Some 1567283281920,
             od_paymentInfo = Some ex_payment, od_total = Some 25,
             od_items = Some [(''itemAAAAAA'', 2), (''itemBBBBBB'', 1)]\<rparr>)
          (Some ''joe@pizza.io'')) \<and>
   fst ex_second_call = Done (Some 200, BCompleted 1567283281920) \<and>
   fst ex_second_call \<noteq> fst ex_first_call"
  by (simp add: ex_second_call_eq ex_first_call_eq)

theorem C1_idempotence_guard_witness:
  "completed_at ex_order_done = Some 1567283282000 \<and>
   Order_complete ex_env_mail_refused None ex_order_done ex_world_stored =
     (Done (Some 200, BCompleted 1567283282000), ex_order_done, ex_world_stored) \<and>
   completed_at ex_order = None \<and>
   w_charges (snd (snd ex_first_call)) =
     w_charges ex_world_stored @
       [\<lparr>ch_amount = 2500, ch_currency = ''USD'', ch_source = ''tok_visa''\<rparr>] \<and>
   Order_complete ex_env_mail_refused (Some ''tok_amex'') (fst (snd ex_first_call))
       (snd (snd ex_first_call)) =
     (Done (Some 200, BCompleted 1567283281920), snd ex_first_call)"
proof -
  have d: "completed_at ex_order_done = Some 1567283282000"
    by (simp add: ex_order_done_eq completed_at_def)
  have n: "completed_at ex_order = None"
    by (simp add: ex_order_eq completed_at_def)
  have run: "Order_complete ex_env_mail_refused None ex_order ex_world_stored =
      (fst ex_first_call, fst (snd ex_first_call), snd (snd ex_first_call))"
    by (simp add: ex_first_call_def)
  have ch: "w_charges (snd (snd ex_first_call)) =
      w_charges ex_world_stored @
        [\<lparr>ch_amount = 2500, ch_currency = ''USD'', ch_source = ''tok_visa''\<rparr>]"
    by (simp add: ex_first_call_eq ex_world_stored_def ex_world_def)
  have gw: "e_gateway ex_env_mail_refused (length (w_charges ex_world_stored))
      \<lparr>ch_amount = 2500, ch_currency = ''USD'', ch_source = ''tok_visa''\<rparr> = AjaxOk (Some ex_payment)"
    by (simp add: ex_env_mail_refused_def ex_env_def)
  have ok: "charge_ok ex_payment"
    by (simp add: charge_ok_def ex_payment_def)
  have t: "o_createdOn ex_order \<le> e_clock ex_env_mail_refused (w_tick ex_world_stored)"
    "e_clock ex_env_mail_refused (w_tick ex_world_stored) \<noteq> 0"
    "e_clock ex_env_mail_refused (w_tick ex_world_stored) = 1567283281920"
    by (simp_all add: ex_order_eq ex_env_mail_refused_def ex_env_def ex_world_stored_def ex_world_def)
  show ?thesis
    using C1_idempotence_guard
      [where x = ex_order_done and c = 1567283282000 and e = ex_env_mail_refused
         and tok = None and w = ex_world_stored and y = ex_order and r = "fst ex_first_call"
         and y' = "fst (snd ex_first_call)" and w' = "snd (snd ex_first_call)"
         and ch = "\<lparr>ch_amount = 2500, ch_currency = ''USD'', ch_source = ''tok_visa''\<rparr>"
         and p = ex_payment and tok' = "Some ''tok_amex''"]
      d n run ch gw ok t
    by simp
qed

lemma complete_hangs_on_empty_catalog:
  "completed_at x = None \<Longrightarrow> w_items w = [] \<Longrightarrow> \<not> e_fault e (FsList Items) \<Longrightarrow>
   Order_complete e tok x w = (NoCallback, x, w)"
  by (simp add: Order_complete_def Item_hashmap_def ds_list_items_def)

text \<open>
  C3, as the code has it. On an order that is not yet completed and has an items mapping,
  once the catalog hashmap is called back: when the total over the items that the catalog
  still holds is not strictly positive, \<open>complete\<close> answers with status 400 and
  \<open>This order contains no items.\<close>, and the order and the state are as they were. For
  every order, completed or not, a total that is not strictly positive means that no
  request goes to the payment gateway.
\<close>

theorem C3_no_charge_without_total:
  "(completed_at x = None \<and> Item_hashmap e w \<noteq> LoadHang \<and> o_items x = Some m \<and>
    \<not> positive (order_total (Item_hashmap e w) m) \<longrightarrow>
      Order_complete e tok x w =
        (Done (Some 400, BErr ''This order contains no items.''), x, w)) \<and>
   (\<not> positive (order_total (Item_hashmap e w) (case o_items y of None \<Rightarrow> [] | Some m \<Rightarrow> m)) \<longrightarrow>
      w_charges (snd (snd (Order_complete e tok y w))) = w_charges w)"
proof (intro conjI impI)
  assume "completed_at x = None \<and> Item_hashmap e w \<noteq> LoadHang \<and> o_items x = Some m \<and>
    \<not> positive (order_total (Item_hashmap e w) m)"
  then show "Order_complete e tok x w =
      (Done (Some 400, BErr ''This order contains no items.''), x, w)"
    by (cases "Item_hashmap e w") (simp_all add: Order_complete_def)
next
  assume "\<not> positive (order_total (Item_hashmap e w)
      (case o_items y of None \<Rightarrow> [] | Some m \<Rightarrow> m))"
  then show "w_charges (snd (snd (Order_complete e tok y w))) = w_charges w"
    by (cases "Item_hashmap e w"; cases "o_items y"; cases "completed_at y")
       (simp_all add: Order_complete_def)
qed

text \<open>
  The claim fails as stated on an order that is already completed: its items sum to 0,
  and \<open>complete\<close> answers with status 200, not with the refusal.
\<close>

theorem C3_completed_order_counterexample:
  "o_items ex_order_done = Some [] \<and>
   order_total (Item_hashmap ex_env ex_world) [] = Some 0 \<and>
   fst (Order_complete ex_env None ex_order_done ex_world) =
     Done (Some 200, BCompleted 1567283282000) \<and>
   fst (Order_complete ex_env None ex_order_done ex_world) \<noteq>
     Done (Some 400, BErr ''This order contains no items.'')"
  by (simp add: ex_order_done_eq order_total_def Order_complete_def completed_at_def)

theorem C3_no_charge_without_total_witness:
  "order_total (Item_hashmap ex_env ex_world) [(''itemZZZZZZ'', 3)] = Some 0 \<and>
   Order_complete ex_env None ex_order_gone ex_world =
     (Done (Some 400, BErr ''This order contains no items.''), ex_order_gone, ex_world) \<and>
   w_charges (snd (snd (Order_complete ex_env None ex_order_done ex_world))) = []"
proof -
  have t: "order_total (Item_hashmap ex_env ex_world) [(''itemZZZZZZ'', 3)] = Some 0"
    by (simp add: ex_hashmap_items ex_items_def order_total_def add_item_def catalog_get_def
          object_proto_keys_def)
  have g: "completed_at ex_order_gone = None" "o_items ex_order_gone = Some [(''itemZZZZZZ'', 3)]"
    by (simp_all add: ex_order_gone_eq completed_at_def)
  have d: "o_items ex_order_done = Some []"
    by (simp add: ex_order_done_eq)
  have z: "order_total (Item_hashmap ex_env ex_world) [] = Some 0"
    by (simp add: order_total_def)
  have c: "w_charges ex_world = []"
    by (simp add: ex_world_def)
  show ?thesis
    using C3_no_charge_without_total
      [where x = ex_order_gone and e = ex_env and w = ex_world and m = "[(''itemZZZZZZ'', 3)]"
         and tok = None and y = ex_order_done]
      t g d z c
    by (simp add: ex_hashmap_items positive_def)
qed

section \<open>Updates and creation of orders\<close>

text \<open>
  C6 fails on the code. The setter and the constructor never store a \<open>completedOn\<close> before
  \<open>createdOn\<close>, and the setter leaves the field as it was
  (\<open>set_completedOn_earlier_unchanged\<close>, \<open>new_order_completedOn_ok\<close>). An update
  through \<open>Order.put\<close> does not: with the payload \<open>{id, completedOn: 5}\<close> on an order
  created at 1567283281000 and completed at 1567283281920, the answer is status 200 and
  the stored document has lost its \<open>completedOn\<close>.
\<close>

theorem C6_forged_update_erases_completedOn:
  "map_option od_completedOn (w_orders ex_world_paid ''oooooooooooooooooooo'') =
     Some (Some 1567283281920) \<and>
   fst (Order_put ex_env ex_forged_update ex_world_paid) =
     Done (Some 200, BOrder
       \<lparr>od_id = Some ''oooooooooooooooooooo'', od_email = Some ''joe@pizza.io'',
        od_createdOn = Some 1567283281000, od_completedOn = None,
        od_paymentInfo = Some ex_payment, od_total = Some 25,
        od_items = Some [(''itemAAAAAA'', 2), (''itemBBBBBB'', 1)]\<rparr>) \<and>
   map_option od_completedOn
     (w_orders (snd (Order_put ex_env ex_forged_update ex_world_paid)) ''oooooooooooooooooooo'') =
     Some None"
  by (simp add: ex_forged_put) (simp add: ex_world_paid_def)

text \<open>The stored \<open>completedOn\<close> after the update is not the stored \<open>completedOn\<close> before it.\<close>

theorem C6_forged_update_erases_completedOn_witness:
  "map_option od_completedOn
     (w_orders (snd (Order_put ex_env ex_forged_update ex_world_paid)) ''oooooooooooooooooooo'') \<noteq>
   map_option od_completedOn (w_orders ex_world_paid ''oooooooooooooooooooo'')"
proof -
  have before: "map_option od_completedOn (w_orders ex_world_paid ''oooooooooooooooooooo'') =
      Some (Some 1567283281920)"
    by (rule C6_forged_update_erases_completedOn [THEN conjunct1])
  have after: "map_option od_completedOn
      (w_orders (snd (Order_put ex_env ex_forged_update ex_world_paid)) ''oooooooooooooooooooo'') =
      Some None"
    by (rule C6_forged_update_erases_completedOn [THEN conjunct2, THEN conjunct2])
  show ?thesis
    unfolding before after by simp
qed

subsection \<open>The cart of a new order\<close>

text \<open>The entries \<open>Order.post\<close> keeps have the \<open>id\<close> of a catalog entry as key.\<close>

lemma item_toJSON_id_valid: "it_id (item_toJSON d) = Some k \<Longrightarrow> isValidItemId k"
  by (auto simp: item_toJSON_def valid_trim_def validators_trim split: option.splits if_splits)

lemma Item_list_ids_valid:
  "Item_list e w = LoadOk items \<Longrightarrow> Some k \<in> set (map it_id items) \<Longrightarrow> isValidItemId k"
  by (auto simp: Item_list_def dest: item_toJSON_id_valid [OF sym] split: option.splits if_splits)

lemma filter_cart_keys_valid:
  assumes "Item_list e w = LoadOk items"
  shows "list_all isValidItemId (map fst (filter_cart items cart))"
  unfolding list_all_iff
proof
  fix k assume "k \<in> set (map fst (filter_cart items cart))"
  then have "Some k \<in> set (map it_id items)"
    by (auto simp: filter_cart_def)
  with assms show "isValidItemId k"
    by (rule Item_list_ids_valid)
qed

lemma o_items_set_others:
  "o_items (set_id i x) = o_items x"
  "o_items (set_email em x) = o_items x"
  "o_items (set_completedOn c x) = o_items x"
  "o_items (set_paymentInfo pinfo x) = o_items x"
  "o_items (set_total t x) = o_items x"
  by (simp_all add: set_id_def set_email_def set_completedOn_def set_paymentInfo_def
        set_total_def split: option.splits)

lemma new_order_items:
  "od_items p = Some m \<Longrightarrow> list_all isValidItemId (map fst m) \<Longrightarrow>
   o_items (new_order now p) = Some m"
  by (simp add: new_order_def Let_def set_items_def)

text \<open>
  What C5 says does hold whenever \<open>Item.list\<close> delivers the catalog: the keys that are
  no \<open>id\<close> of a catalog entry are dropped without an error, the order that is created and
  stored holds the remaining entries, and when none remains the answer is status 400 and
  the state is as it was.
\<close>

lemma Order_post_with_catalog:
  assumes "valid_trim isValidEmail p_email = Some email" and "Item_list e w = LoadOk items"
  shows "filter_cart items cart = [] \<Longrightarrow>
           Order_post e p_email (Some cart) w =
             (Done (Some 400, BErr ''Cannot create order. User's cart is empty''), w)"
    and "Order_post e p_email (Some cart) w = (Done (Some 200, BOrder d), w') \<Longrightarrow>
           od_items d = Some (filter_cart items cart) \<and>
           w_orders w' = (w_orders w)(key_of (od_id d) \<mapsto> d) \<and>
           w_orders w (key_of (od_id d)) = None"
proof -
  show "filter_cart items cart = [] \<Longrightarrow>
      Order_post e p_email (Some cart) w =
        (Done (Some 400, BErr ''Cannot create order. User's cart is empty''), w)"
    using assms by (simp add: Order_post_def)
next
  assume run: "Order_post e p_email (Some cart) w = (Done (Some 200, BOrder d), w')"
  let ?c = "filter_cart items cart"
  have v: "list_all isValidItemId (map fst ?c)"
    using assms(2) by (rule filter_cart_keys_valid)
  have it: "\<And>now i em. o_items (new_order now
      \<lparr>od_id = i, od_email = em, od_createdOn = None, od_completedOn = None,
       od_paymentInfo = None, od_total = None, od_items = Some ?c\<rparr>) = Some ?c"
    using v by (simp add: new_order_items)
  show "od_items d = Some ?c \<and> w_orders w' = (w_orders w)(key_of (od_id d) \<mapsto> d) \<and>
      w_orders w (key_of (od_id d)) = None"
    using run assms it
    by (auto simp: Order_post_def Let_def date_now_def order_toJSON_def ds_create_def
          dest!: createUniqueId_frame split: option.splits if_splits)
qed

text \<open>
  C5 fails on the code when the catalog is empty: \<open>Item.list\<close> calls back from the
  callback of the read that completes the list, and with no file there is no read. The
  request is never answered; the claim says it fails with a 400.
\<close>

theorem C5_empty_catalog_no_answer:
  "Order_post ex_env (Some ''joe@pizza.io'') (Some [(''itemXXXXXX'', 2)]) ex_world_no_items =
     (NoCallback, ex_world_no_items)"
  by (simp add: Order_post_def Item_list_def ds_list_items_def ex_world_no_items_def ex_world_def
        ex_env_def str_defs)

section \<open>The allocator of identifiers\<close>

text \<open>
  The registry does what it is written for on the candidates: a candidate that is accepted
  has 21 characters and is not in the registry, so the registry never holds a candidate
  twice. The identifier handed out is a suffix of the candidate.
\<close>

lemma fresh_sId_accepts:
  assumes "fresh_sId e ids t r = Some y"
  shows "fst y \<notin> set ids \<and> length (fst y) = 21"
proof (rule fresh_sId.raw_induct
    [where P = "\<lambda>e ids t r y. fst y \<notin> set ids \<and> length (fst y) = 21", OF _ assms])
  fix f e ids t r y
  assume ih: "\<And>e ids t r y. f e ids t r = Some y \<Longrightarrow> fst y \<notin> set ids \<and> length (fst y) = 21"
    and step: "(let sId = to_base36 (e_clock e t) @ e_random e r
         in if sId \<in> set ids \<or> length sId \<noteq> 21 then f e ids (Suc t) (Suc r)
            else Some (sId, Suc t, Suc r)) = Some y"
  show "fst y \<notin> set ids \<and> length (fst y) = 21"
  proof (cases "to_base36 (e_clock e t) @ e_random e r \<in> set ids \<or>
      length (to_base36 (e_clock e t) @ e_random e r) \<noteq> 21")
    case True
    with step have "f e ids (Suc t) (Suc r) = Some y" by (simp add: Let_def)
    then show ?thesis by (rule ih)
  next
    case False
    with step have "y = (to_base36 (e_clock e t) @ e_random e r, Suc t, Suc r)"
      by (auto simp: Let_def)
    with False show ?thesis by simp
  qed
qed

lemma fresh_sId_fresh:
  "fresh_sId e ids t r = Some (s, t', r') \<Longrightarrow> s \<notin> set ids \<and> length s = 21"
  using fresh_sId_accepts [of e ids t r "(s, t', r')"] by simp

lemma createRandomString_registry:
  assumes "createRandomString e n w = Some (i, w')" and "distinct (w_IDs w)"
  shows "distinct (w_IDs w') \<and> (\<exists>s. w_IDs w' = s # w_IDs w \<and> s \<notin> set (w_IDs w) \<and>
           i = drop (21 - (if 0 < n \<and> n \<le> 21 then n else 21)) s)"
  using assms
  by (auto simp: createRandomString_def Let_def dest: fresh_sId_fresh split: option.splits)

text \<open>
  C9 fails on the code. The registry holds the 21-character candidates, and the identifier
  handed out is the candidate without its first character. Two candidates that differ in
  the first character only, \<open>k000000000000000000ab\<close> and \<open>l000000000000000000ab\<close>
  (the clock \<open>36^7\<close> milliseconds later, the random digits repeated), are both accepted
  and give the same order identifier.
\<close>

theorem C9_identifier_repeats:
  "createUniqueId ex_env_recurring ex_world =
     Some (''000000000000000000ab'',
           ex_world\<lparr>w_tick := 1, w_draws := 1, w_IDs := [''k000000000000000000ab'']\<rparr>) \<and>
   createUniqueId ex_env_recurring
     (ex_world\<lparr>w_tick := 1, w_draws := 1, w_IDs := [''k000000000000000000ab'']\<rparr>) =
     Some (''000000000000000000ab'',
           ex_world\<lparr>w_tick := 2, w_draws := 2,
                    w_IDs := [''l000000000000000000ab'', ''k000000000000000000ab'']\<rparr>)"
  by (rule conjI [OF ex_first_id ex_second_id])

section \<open>Checkout\<close>



text \<open>
  C4 fails on the code. \<open>helpers.ajax\<close> calls back with \<open>null\<close> and the response when the
  mail API accepts the invoice; \<open>complete\<close> reads the first argument as a status and
  passes it on. \<open>checkout\<close> compares it with 200 and answers without step 8: the card is
  charged 1500 and the order is stored as completed, and the user's document still holds
  the cart and no order.
\<close>

theorem C4_checkout_skips_user_update:
  "checkout ex_env (Some ''joe@pizza.io'') None (Some ''tttttttttttttttttttt'') ex_world =
     (Done (None, BInvoice ''Queued. Thank you.''), ex_world_completed) \<and>
   w_charges ex_world_completed =
     [\<lparr>ch_amount = 1500, ch_currency = ''USD'', ch_source = ''tok_visa''\<rparr>] \<and>
   w_orders ex_world_completed ''000000600000000000ab'' = Some ex_paid_order_data \<and>
   od_completedOn ex_paid_order_data = Some 1567283281928 \<and>
   w_users ex_world_completed ''joe@pizza.io'' = Some ex_user \<and>
   ud_cart ex_user = Some [(''itemXXXXXX'', 2)] \<and> ud_orders ex_user = Some []"
  by (simp add: ex_checkout_to_order [OF ex_env_like] ex_checkout_order_mailed
        ex_world_completed_fields ex_paid_order_data_def ex_user_def)

text \<open>
  C7, for a request with a well-formed email. When the header carries the id of a stored
  token whose expiration is not after the clock reading taken by the check, and the
  token's file can be read and unlinked, \<open>checkout\<close> answers with status 403; the state
  afterwards differs from the state before in the clock reading taken and in the token,
  which is gone. No order is stored and no charge is sent.
\<close>

theorem C7_expired_token_rejected:
  assumes "valid_trim isValidEmail p_email = Some email"
    and "valid_trim isValidTokenId h_tokenid = Some tid"
    and "w_tokens w tid = Some td" and "td_id td = Some tid"
    and "expiration_num (td_expiration td) \<le> e_clock e (w_tick w)"
    and "\<not> e_fault e (FsRead Tokens tid)" and "\<not> e_fault e (FsDelete Tokens tid)"
  shows "checkout e p_email stripe h_tokenid w =
           (Done (Some 403, BErr ''Missing required token in header, or token is invalid.''),
            w\<lparr>w_tick := Suc (w_tick w), w_tokens := (w_tokens w)(tid := None)\<rparr>) \<and>
         w_tokens (snd (checkout e p_email stripe h_tokenid w)) tid = None \<and>
         w_orders (snd (checkout e p_email stripe h_tokenid w)) = w_orders w \<and>
         w_charges (snd (checkout e p_email stripe h_tokenid w)) = w_charges w"
proof -
  have t: "valid_trim isValidTokenId (Some tid) = Some tid"
    using assms(2) by (rule valid_trim_again)
  have del: "Token_delete e (Some tid) (w\<lparr>w_tick := Suc (w_tick w)\<rparr>) =
      ((Some 200, BNone), w\<lparr>w_tick := Suc (w_tick w), w_tokens := (w_tokens w)(tid := None)\<rparr>)"
    using assms(3,4,6,7) t
    by (simp add: Token_delete_def ds_read_def ds_delete_def new_token_def)
  have chk: "token_isValid e
      \<lparr>tk_email = valid_trim isValidEmail (Some email), tk_id = Some tid, tk_expiration = None\<rparr> w =
      (False, w\<lparr>w_tick := Suc (w_tick w), w_tokens := (w_tokens w)(tid := None)\<rparr>)"
    using assms(3-6) del
    by (simp add: token_isValid_def key_of_def ds_read_def date_now_def)
  have run: "checkout e p_email stripe h_tokenid w =
      (Done (Some 403, BErr ''Missing required token in header, or token is invalid.''),
       w\<lparr>w_tick := Suc (w_tick w), w_tokens := (w_tokens w)(tid := None)\<rparr>)"
    using assms(1,2) t chk
    by (simp add: checkout_def new_token_def no_token_def)
  show ?thesis
    by (simp add: run)
qed

text \<open>
  The claim fails as stated when the email of the request is malformed: the answer is
  status 400 and the expired token stays.
\<close>

theorem C7_malformed_email_counterexample:
  "expiration_num (td_expiration (ex_token\<lparr>td_expiration := Some 1567283281000\<rparr>)) <
     e_clock ex_env (w_tick ex_world_expired) \<and>
   checkout ex_env (Some ''joe'') None (Some ''tttttttttttttttttttt'') ex_world_expired =
     (Done (Some 400, BErr ''Missing required field''), ex_world_expired) \<and>
   w_tokens ex_world_expired ''tttttttttttttttttttt'' =
     Some (ex_token\<lparr>td_expiration := Some 1567283281000\<rparr>)"
  by (simp add: checkout_def str_defs ex_world_expired_fields expiration_num_def ex_env_fields)

theorem C7_expired_token_rejected_witness:
  "checkout ex_env (Some ''joe@pizza.io'') None (Some ''tttttttttttttttttttt'') ex_world_expired =
     (Done (Some 403, BErr ''Missing required token in header, or token is invalid.''),
      ex_world_expired\<lparr>w_tick := Suc 0, w_tokens := Map.empty\<rparr>) \<and>
   w_orders (snd (checkout ex_env (Some ''joe@pizza.io'') None (Some ''tttttttttttttttttttt'')
     ex_world_expired)) = Map.empty"
proof -
  have em: "valid_trim isValidEmail (Some ''joe@pizza.io'') = Some ''joe@pizza.io''"
    by (simp add: str_defs)
  have tk: "valid_trim isValidTokenId (Some ''tttttttttttttttttttt'') = Some ''tttttttttttttttttttt''"
    by (simp add: str_defs)
  have st: "w_tokens ex_world_expired ''tttttttttttttttttttt'' =
      Some (ex_token\<lparr>td_expiration := Some 1567283281000\<rparr>)"
    by (simp add: ex_world_expired_fields)
  have tid: "td_id (ex_token\<lparr>td_expiration := Some 1567283281000\<rparr>) = Some ''tttttttttttttttttttt''"
    by (simp add: ex_token_def)
  have ex: "expiration_num (td_expiration (ex_token\<lparr>td_expiration := Some 1567283281000\<rparr>)) \<le>
      e_clock ex_env (w_tick ex_world_expired)"
    by (simp add: expiration_num_def ex_env_fields ex_world_expired_fields)
  have f: "\<not> e_fault ex_env (FsRead Tokens ''tttttttttttttttttttt'')"
    "\<not> e_fault ex_env (FsDelete Tokens ''tttttttttttttttttttt'')"
    by (simp_all add: ex_env_fields)
  show ?thesis
    using C7_expired_token_rejected [OF em tk st tid ex f, of None]
    by (simp add: ex_world_expired_fields)
qed


end
